theory Spec2Isabelle
  imports Main "HOL-Library.Multiset" "HOL-Library.Char_ord" "HOL-Library.List_Lexorder"
    "HOL-Library.Product_Lexorder"
begin

section \<open>Room state coordination of the Imposter hint game\<close>

text \<open>
  The repository holds two single-file React components with the same operations:
  \<^item> \<^verbatim>\<open>src/ImposterGameApp.jsx\<close>: the local demo; the rooms live in \<^verbatim>\<open>localStorage\<close>, a
    room's \<^verbatim>\<open>players\<close> is an array. Its functions carry the suffix \<open>_local\<close> here.
  \<^item> \<^verbatim>\<open>src/unnamed/part_000\<close>: the Firebase Realtime Database version; a room's
    \<^verbatim>\<open>players\<close> is an object keyed by player id. Its functions carry the suffix \<open>_fb\<close>.

  Each operation of a component is a closure over the component's state (\<^verbatim>\<open>meId\<close>,
  \<^verbatim>\<open>name\<close>, \<^verbatim>\<open>currentRoomCode\<close>, ...), modelled as a record that is passed in and, where
  the operation calls a state setter, returned updated. The shared store (the
  \<^verbatim>\<open>rooms\<close> object) is a map from room codes to rooms, passed in and returned.
  \<^verbatim>\<open>Date.now()\<close>, \<^verbatim>\<open>makeCode()\<close> and the outcome of the random sort are parameters.
  A \<^verbatim>\<open>return alert(...)\<close> is the \<open>Some\<close> of an \<open>alert\<close> value with the state unchanged.
\<close>

subsection \<open>Strings\<close>

text \<open>
  A display name and the text of a hint are typed by the user: such a string is the list
  of its UTF-16 code units, as JavaScript has it. \<open>js\<close> gives the code units of an ASCII
  literal. Player ids (\<^verbatim>\<open>uuidv4()\<close>) and room codes (\<^verbatim>\<open>makeCode()\<close>) are ASCII and stay
  \<open>string\<close>.
\<close>

type_synonym jsstring = "nat list"

definition js :: "string \<Rightarrow> jsstring" where
  "js s = map of_char s"

text \<open>
  \<^verbatim>\<open>String.prototype.trim\<close> strips the white space and the line terminators of
  ECMAScript from both ends: U+0009 to U+000D, U+0020, U+00A0, U+1680, U+2000 to U+200A,
  U+2028, U+2029, U+202F, U+205F, U+3000 and U+FEFF. All are single code units.
\<close>

definition isSpace :: "nat \<Rightarrow> bool" where
  "isSpace u =
     (u \<in> {9, 10, 11, 12, 13, 32, 160, 5760, 8232, 8233, 8239, 8287, 12288, 65279} \<or>
      (8192 \<le> u \<and> u \<le> 8202))"

definition trim :: "jsstring \<Rightarrow> jsstring" where
  "trim s = rev (dropWhile isSpace (rev (dropWhile isSpace s)))"

text \<open>\<^verbatim>\<open>String.prototype.toUpperCase\<close> on the ASCII letters.\<close>

definition upperChar :: "char \<Rightarrow> char" where
  "upperChar c =
     (let n = (of_char c :: nat) in if 97 \<le> n \<and> n \<le> 122 then char_of (n - 32) else c)"

definition toUpperCase :: "string \<Rightarrow> string" where
  "toUpperCase s = map upperChar s"

text \<open>
  A number as the fields and arguments of the code can hold it: an integer, \<^verbatim>\<open>NaN\<close> (what
  \<^verbatim>\<open>parseInt\<close> returns for a value such as \<^verbatim>\<open>.5\<close>, which a number input accepts), or no
  number at all: \<^verbatim>\<open>null\<close> in the local component (the JSON of \<^verbatim>\<open>NaN\<close>), a missing field
  in the Firebase component. \<^verbatim>\<open>parseInt\<close> returns no fraction; \<^verbatim>\<open>Infinity\<close>, which it returns
  for a very long row of digits, acts below as any integer above the member count does.
\<close>

datatype jsnum = Num int | NaN | Null

text \<open>
  \<^verbatim>\<open>Math.min\<close> and \<^verbatim>\<open>Math.max\<close> convert their arguments to numbers (\<^verbatim>\<open>null\<close> to 0) and give
  \<^verbatim>\<open>NaN\<close> when one of them is \<^verbatim>\<open>NaN\<close>. \<open>toNumber\<close> is used by the local component only, where
  \<open>Null\<close> is \<^verbatim>\<open>null\<close>.
\<close>

definition toNumber :: "jsnum \<Rightarrow> int option" where
  "toNumber x = (case x of Num i \<Rightarrow> Some i | NaN \<Rightarrow> None | Null \<Rightarrow> Some 0)"

definition mathMin :: "jsnum \<Rightarrow> int \<Rightarrow> jsnum" where
  "mathMin x m = (case toNumber x of None \<Rightarrow> NaN | Some i \<Rightarrow> Num (min i m))"

definition mathMax :: "int \<Rightarrow> jsnum \<Rightarrow> jsnum" where
  "mathMax m x = (case toNumber x of None \<Rightarrow> NaN | Some i \<Rightarrow> Num (max m i))"

text \<open>\<^verbatim>\<open>x || 1\<close>: 0, \<^verbatim>\<open>NaN\<close>, \<^verbatim>\<open>null\<close> and a missing field are falsy.\<close>

definition orOne :: "jsnum \<Rightarrow> int" where
  "orOne x = (case x of Num i \<Rightarrow> (if i = 0 then 1 else i) | NaN \<Rightarrow> 1 | Null \<Rightarrow> 1)"

text \<open>The decimal rendering of a number inside a template literal.\<close>

function string_of_nat :: "nat \<Rightarrow> string" where
  "string_of_nat n =
     (if n < 10 then [char_of (48 + n)]
      else string_of_nat (n div 10) @ [char_of (48 + n mod 10)])"
  by pat_completeness auto
termination
  by (relation "measure (\<lambda>n. n)") auto

definition string_of_int :: "int \<Rightarrow> string" where
  "string_of_int i = (if i < 0 then CHR ''-'' # string_of_nat (nat (- i)) else string_of_nat (nat i))"

definition string_of_jsnum :: "jsnum \<Rightarrow> string" where
  "string_of_jsnum x =
     (case x of Num i \<Rightarrow> string_of_int i | NaN \<Rightarrow> ''NaN'' | Null \<Rightarrow> ''null'')"

text \<open>The text of the chat entry that \<^verbatim>\<open>startGame\<close> pushes.\<close>

definition startedText :: "jsnum \<Rightarrow> string" where
  "startedText numImposters =
     ''Game started. '' @ string_of_jsnum numImposters @ '' imposters assigned.''"

subsection \<open>Data shared by the two components\<close>

datatype role = Crewmate | Imposter

text \<open>
  A player object \<^verbatim>\<open>{ id, name, role, joinedAt }\<close>. The fields \<^verbatim>\<open>id\<close> and \<^verbatim>\<open>name\<close> are
  \<open>pid\<close> and \<open>pname\<close> here (\<open>id\<close> is the identity function of HOL, \<open>name\<close> is the
  component's own state variable below).
\<close>

record player =
  pid :: string
  pname :: jsstring
  role :: role
  joinedAt :: nat

text \<open>
  A chat entry: \<^verbatim>\<open>{ system: true, text, ts }\<close> or \<^verbatim>\<open>{ playerId, name, text, ts }\<close>.
\<close>

datatype chatmsg =
    SystemMsg string nat
  | PlayerMsg string jsstring jsstring nat

text \<open>The alerts of the two components, in the order of their first appearance.\<close>

datatype alert =
    EnterName          \<comment> \<open>\<^verbatim>\<open>Enter a display name first.\<close>\<close>
  | NotConfigured      \<comment> \<open>\<^verbatim>\<open>Firebase is not configured. ...\<close>\<close>
  | NoSuchRoom         \<comment> \<open>\<^verbatim>\<open>That room code doesn't exist.\<close>\<close>
  | AlreadyStarted     \<comment> \<open>\<^verbatim>\<open>Game already started.\<close>\<close>
  | NotYourTurn        \<comment> \<open>\<^verbatim>\<open>It's not your turn.\<close>\<close>
  | OnlyLeaderKicks    \<comment> \<open>\<^verbatim>\<open>Only leader can kick players.\<close>\<close>

text \<open>
  \<^verbatim>\<open>xs.slice(0, k)\<close> for an integer \<open>k\<close>: a negative end counts from the end of the
  array, and both ends are clamped to the array.
\<close>

definition slice0 :: "'a list \<Rightarrow> int \<Rightarrow> 'a list" where
  "slice0 xs k = (if k < 0 then take (nat (int (length xs) + k)) xs else take (nat k) xs)"

text \<open>The same with an end that may be no number: \<^verbatim>\<open>NaN\<close> is taken as 0.\<close>

definition sliceNum :: "'a list \<Rightarrow> jsnum \<Rightarrow> 'a list" where
  "sliceNum xs k = (case toNumber k of None \<Rightarrow> [] | Some i \<Rightarrow> slice0 xs i)"

text \<open>
  \<^verbatim>\<open>xs[i % xs.length]\<close>: on the empty array the remainder is \<^verbatim>\<open>NaN\<close> and the read
  gives \<^verbatim>\<open>undefined\<close>; otherwise the index is in range.
\<close>

definition atTurn :: "'a list \<Rightarrow> nat \<Rightarrow> 'a option" where
  "atTurn xs i = (if length xs = 0 then None else Some (xs ! (i mod length xs)))"

text \<open>The roles that \<^verbatim>\<open>startGame\<close> writes: imposter for the chosen ids, crewmate for the rest.\<close>

definition assignRoles :: "string list \<Rightarrow> player list \<Rightarrow> player list" where
  "assignRoles imposterIds ps =
     map (\<lambda>p. p\<lparr>role := (if pid p \<in> set imposterIds then Imposter else Crewmate)\<rparr>) ps"

definition numImposters :: "int \<Rightarrow> nat \<Rightarrow> int" where
  "numImposters configured n = min configured (max 1 (int n div 2))"

subsection \<open>Rooms and component state\<close>

text \<open>
  The room object of both components has the same fields. They differ in what a stored
  room may hold: the local component always stores all eight fields, with \<^verbatim>\<open>chat\<close> an
  array; in the Firebase component \<^verbatim>\<open>chat\<close> is an object keyed by \<^verbatim>\<open>Date.now()\<close>, and a
  room written by an \<^verbatim>\<open>update\<close> to a path that did not exist lacks the other fields.
  So the types of \<^verbatim>\<open>code\<close>, \<^verbatim>\<open>turnIndex\<close>, \<^verbatim>\<open>chat\<close> and \<^verbatim>\<open>createdAt\<close> are parameters.
  \<open>leaderId = None\<close> is \<^verbatim>\<open>null\<close> (which the local \<^verbatim>\<open>kickPlayer\<close> can store) or a missing
  field. In the Firebase component \<open>players\<close> is the list of the values of the object in
  the order in which \<^verbatim>\<open>Object.keys\<close> lists them; every write of the source puts a player
  under the key that is the player's \<^verbatim>\<open>id\<close>, so \<open>map pid\<close> of the list are the keys, and a
  missing \<^verbatim>\<open>players\<close> or \<^verbatim>\<open>chat\<close> (Firebase stores no empty object) is the empty one. A
  missing \<^verbatim>\<open>started\<close> reads as \<^verbatim>\<open>undefined\<close>, which every test of the source treats as
  \<^verbatim>\<open>false\<close>. The list of a Firebase room is in the order in which the store lists the
  keys, which is the order of the keys themselves. \<^verbatim>\<open>impostersCount\<close> is a \<open>jsnum\<close>: the
  local \<^verbatim>\<open>setImposterCount\<close> can store \<^verbatim>\<open>NaN\<close> (which \<^verbatim>\<open>localStorage\<close> holds as \<^verbatim>\<open>null\<close>), and a
  Firebase room written by a transaction on the players of a path that did not exist has
  no such field.
\<close>

record ('c, 't, 'ch, 'ts) room =
  code :: 'c
  leaderId :: "string option"
  impostersCount :: jsnum
  started :: bool
  turnIndex :: 't
  players :: "player list"
  chat :: 'ch
  createdAt :: 'ts

type_synonym room_local = "(string, nat, chatmsg list, nat) room"
type_synonym room_fb = "(string option, nat option, nat \<rightharpoonup> chatmsg, nat option) room"

type_synonym rooms_local = "string \<rightharpoonup> room_local"
type_synonym rooms_fb = "string \<rightharpoonup> room_fb"

text \<open>
  The state of a component that the operations read and set. \<open>configOk\<close> stands for
  \<^verbatim>\<open>configOk && db\<close> of the Firebase component: whether \<^verbatim>\<open>isConfigFilled\<close> accepted the
  \<^verbatim>\<open>firebaseConfig\<close> and the database was opened. With the placeholder \<^verbatim>\<open>REPLACE_ME\<close> still
  in the configuration it is false and every operation stops at its first test; the
  theorems on the Firebase component are about a configured client.
\<close>

record client =
  meId :: string
  name :: jsstring
  currentRoomCode :: string

record client_local = client +
  isLeaderView :: bool

record client_fb = client +
  configOk :: bool

subsection \<open>The local component (\<^verbatim>\<open>src/ImposterGameApp.jsx\<close>)\<close>

text \<open>
  \<^verbatim>\<open>while (roomsCopy[code]) code = makeCode();\<close> The draws of \<^verbatim>\<open>makeCode\<close> after the
  first are the list; the loop has no bound, and running out of draws is \<open>None\<close>.
\<close>

fun freshCode_local :: "rooms_local \<Rightarrow> string \<Rightarrow> string list \<Rightarrow> string option" where
  "freshCode_local rs c [] = (if rs c \<noteq> None then None else Some c)"
| "freshCode_local rs c (d # ds) = (if rs c \<noteq> None then freshCode_local rs d ds else Some c)"

definition createRoom_local ::
  "client_local \<Rightarrow> nat \<Rightarrow> nat \<Rightarrow> string \<Rightarrow> string list \<Rightarrow> rooms_local
     \<Rightarrow> (alert option \<times> client_local \<times> rooms_local) option" where
  "createRoom_local c nowJoined nowCreated draw draws rs =
     (if trim (name c) = [] then Some (Some EnterName, c, rs)
      else case freshCode_local rs draw draws of
        None \<Rightarrow> None
      | Some cd \<Rightarrow>
          Some (None, c\<lparr>currentRoomCode := cd, isLeaderView := True\<rparr>,
            rs(cd \<mapsto> \<lparr>code = cd, leaderId = Some (meId c), impostersCount = Num 1,
                started = False, turnIndex = 0,
                players = [\<lparr>pid = meId c, pname = trim (name c), role = Crewmate,
                            joinedAt = nowJoined\<rparr>],
                chat = [], createdAt = nowCreated\<rparr>)))"

definition joinRoom_local ::
  "client_local \<Rightarrow> nat \<Rightarrow> string \<Rightarrow> rooms_local \<Rightarrow> alert option \<times> client_local \<times> rooms_local" where
  "joinRoom_local c now cd rs =
     (if trim (name c) = [] then (Some EnterName, c, rs)
      else case rs cd of
        None \<Rightarrow> (Some NoSuchRoom, c, rs)
      | Some room \<Rightarrow>
          if started room then (Some AlreadyStarted, c, rs)
          else if find (\<lambda>p. pid p = meId c) (players room) \<noteq> None then
            (None, c\<lparr>currentRoomCode := cd, isLeaderView := (leaderId room = Some (meId c))\<rparr>, rs)
          else
            (None, c\<lparr>currentRoomCode := cd, isLeaderView := (leaderId room = Some (meId c))\<rparr>,
             rs(cd \<mapsto> room\<lparr>players := players room @
                  [\<lparr>pid = meId c, pname = trim (name c), role = Crewmate, joinedAt = now\<rparr>]\<rparr>)))"

text \<open>
  What a \<^verbatim>\<open>joinRoom\<close> hands to \<^verbatim>\<open>saveRooms\<close>: the whole \<^verbatim>\<open>rooms\<close> object, computed from the
  component's own copy of the rooms (its \<^verbatim>\<open>rooms\<close> state); \<open>None\<close> when it returns without
  saving. \<^verbatim>\<open>saveRooms(next)\<close> replaces what \<^verbatim>\<open>localStorage\<close> holds by \<open>next\<close>; the copy of
  another tab follows when that tab handles the storage event.
\<close>

definition joinWrite_local ::
  "client_local \<Rightarrow> nat \<Rightarrow> string \<Rightarrow> rooms_local \<Rightarrow> rooms_local option" where
  "joinWrite_local c now cd copy =
     (if trim (name c) = [] then None
      else case copy cd of
        None \<Rightarrow> None
      | Some room \<Rightarrow>
          if started room then None
          else if find (\<lambda>p. pid p = meId c) (players room) \<noteq> None then None
          else Some (copy(cd \<mapsto> room\<lparr>players := players room @
                  [\<lparr>pid = meId c, pname = trim (name c), role = Crewmate, joinedAt = now\<rparr>]\<rparr>)))"

definition saveRooms :: "rooms_local option \<Rightarrow> rooms_local \<Rightarrow> rooms_local" where
  "saveRooms next stored = (case next of None \<Rightarrow> stored | Some rs \<Rightarrow> rs)"

text \<open>
  Two tabs hold the same copy of the rooms, which is also what is stored. The first
  joins; the second joins before it has handled the storage event of the first, so from
  the same copy. The result is what is stored after both.
\<close>

definition joinsFromSameCopy_local ::
  "client_local \<Rightarrow> nat \<Rightarrow> client_local \<Rightarrow> nat \<Rightarrow> string \<Rightarrow> rooms_local \<Rightarrow> rooms_local" where
  "joinsFromSameCopy_local a nowA b nowB cd copy =
     saveRooms (joinWrite_local b nowB cd copy) (saveRooms (joinWrite_local a nowA cd copy) copy)"

definition leaveRoom_local :: "client_local \<Rightarrow> rooms_local \<Rightarrow> client_local \<times> rooms_local" where
  "leaveRoom_local c rs =
     (if currentRoomCode c = [] then (c, rs)
      else case rs (currentRoomCode c) of
        None \<Rightarrow> (c\<lparr>currentRoomCode := []\<rparr>, rs)
      | Some room \<Rightarrow>
          let ps = filter (\<lambda>p. pid p \<noteq> meId c) (players room) in
          if leaderId room = Some (meId c) then
            (case ps of
               p # _ \<Rightarrow> (c\<lparr>currentRoomCode := []\<rparr>,
                         rs(currentRoomCode c \<mapsto> room\<lparr>players := ps, leaderId := Some (pid p)\<rparr>))
             | [] \<Rightarrow> (c\<lparr>currentRoomCode := []\<rparr>, rs(currentRoomCode c := None)))
          else (c\<lparr>currentRoomCode := []\<rparr>, rs(currentRoomCode c \<mapsto> room\<lparr>players := ps\<rparr>)))"

text \<open>
  \<^verbatim>\<open>setImposterCount\<close> through \<^verbatim>\<open>updateRoom\<close>, with the patch
  \<^verbatim>\<open>{ impostersCount: Math.max(1, Math.min(count, Math.floor(room.players.length / 1))) }\<close>.
  \<open>cnt\<close> is the argument \<^verbatim>\<open>count\<close>, the \<^verbatim>\<open>parseInt\<close> of the number input: an integer or
  \<^verbatim>\<open>NaN\<close>. With \<^verbatim>\<open>NaN\<close> the patch stores \<^verbatim>\<open>NaN\<close>.
\<close>

definition setImposterCount_local :: "string \<Rightarrow> jsnum \<Rightarrow> rooms_local \<Rightarrow> rooms_local" where
  "setImposterCount_local cd cnt rs =
     (case rs cd of
        None \<Rightarrow> rs
      | Some room \<Rightarrow>
          rs(cd \<mapsto> room\<lparr>impostersCount :=
                mathMax 1 (mathMin cnt (int (length (players room)) div 1))\<rparr>))"

text \<open>
  \<^verbatim>\<open>startGame(code)\<close>. \<open>shuffle\<close> is the outcome of
  \<^verbatim>\<open>players.slice().sort(() => Math.random() - 0.5)\<close>. The function reads neither
  \<^verbatim>\<open>meId\<close> nor \<^verbatim>\<open>started\<close>; the client is a parameter only to name the requester.
\<close>

definition startGame_local ::
  "client_local \<Rightarrow> (player list \<Rightarrow> player list) \<Rightarrow> nat \<Rightarrow> string \<Rightarrow> rooms_local \<Rightarrow> rooms_local" where
  "startGame_local c shuffle now cd rs =
     (case rs cd of
        None \<Rightarrow> rs
      | Some room \<Rightarrow>
          let ps = players room;
              k = mathMin (impostersCount room) (max 1 (int (length ps) div 2));
              shuffled = shuffle ps;
              imposterIds = map pid (sliceNum shuffled k)
          in rs(cd \<mapsto> room\<lparr>players := assignRoles imposterIds ps, started := True,
                  turnIndex := 0,
                  chat := chat room @ [SystemMsg (startedText k) now]\<rparr>))"

definition sendHint_local ::
  "client_local \<Rightarrow> nat \<Rightarrow> jsstring \<Rightarrow> rooms_local \<Rightarrow> alert option \<times> rooms_local" where
  "sendHint_local c now txt rs =
     (case rs (currentRoomCode c) of
        None \<Rightarrow> (None, rs)
      | Some room \<Rightarrow>
          (case atTurn (players room) (turnIndex room) of
             None \<Rightarrow> (Some NotYourTurn, rs)
           | Some currentPlayer \<Rightarrow>
               if pid currentPlayer \<noteq> meId c then (Some NotYourTurn, rs)
               else (None,
                 rs(currentRoomCode c \<mapsto> room\<lparr>
                      chat := chat room @ [PlayerMsg (meId c) (trim (name c)) (trim txt) now],
                      turnIndex := (turnIndex room + 1) mod length (players room)\<rparr>))))"

text \<open>
  The two places that call \<^verbatim>\<open>sendHint\<close> (the Enter key and the Send button of
  \<^verbatim>\<open>renderGame\<close>) are \<^verbatim>\<open>if (v.trim()) { sendHint(v); ... }\<close>.
\<close>

definition submitHint_local ::
  "client_local \<Rightarrow> nat \<Rightarrow> jsstring \<Rightarrow> rooms_local \<Rightarrow> alert option \<times> rooms_local" where
  "submitHint_local c now v rs = (if trim v \<noteq> [] then sendHint_local c now v rs else (None, rs))"

definition kickPlayer_local :: "client_local \<Rightarrow> string \<Rightarrow> rooms_local \<Rightarrow> rooms_local" where
  "kickPlayer_local c playerId rs =
     (if currentRoomCode c = [] then rs
      else case rs (currentRoomCode c) of
        None \<Rightarrow> rs
      | Some room \<Rightarrow>
          let ps = filter (\<lambda>p. pid p \<noteq> playerId) (players room) in
          rs(currentRoomCode c \<mapsto> room\<lparr>players := ps,
               leaderId := (if leaderId room = Some playerId
                            then (case ps of [] \<Rightarrow> None | p # _ \<Rightarrow> Some (pid p))
                            else leaderId room)\<rparr>))"

text \<open>
  \<^verbatim>\<open>renderLobby\<close> offers the Kick button of a player \<open>p\<close> only under
  \<^verbatim>\<open>amLeader && p.id !== meId\<close>, and the Start button only under
  \<^verbatim>\<open>amLeader && !room.started\<close>.
\<close>

definition amLeader_local :: "client_local \<Rightarrow> room_local \<Rightarrow> bool" where
  "amLeader_local c room = (leaderId room = Some (meId c))"


definition startOffered_local :: "client_local \<Rightarrow> room_local \<Rightarrow> bool" where
  "startOffered_local c room = (amLeader_local c room \<and> \<not> started room)"

subsection \<open>The Firebase component (\<^verbatim>\<open>src/unnamed/part_000\<close>)\<close>

text \<open>
  The operations are \<^verbatim>\<open>async\<close>. A handler \<open>h_fb\<close> below is the handler run to its end
  with no write of another client in between: a \<^verbatim>\<open>get\<close> reads the store, and
  \<^verbatim>\<open>runTransaction\<close>, \<^verbatim>\<open>update\<close>, \<^verbatim>\<open>set\<close> and \<^verbatim>\<open>remove\<close> write it. Every handler writes the
  store at most once, but \<^verbatim>\<open>leaveRoom\<close>, which writes it twice; its two steps are
  definitions of their own.

  \<^verbatim>\<open>for (let i = 0; i < 6; i++) { if (!snap.exists()) break; code = makeCode(); }\<close>:
  \<open>redraw i\<close> is the draw of round \<open>i\<close>. After six rounds the last draw is used as it is.
\<close>

function retryCode_fb :: "rooms_fb \<Rightarrow> (nat \<Rightarrow> string) \<Rightarrow> nat \<Rightarrow> string \<Rightarrow> string" where
  "retryCode_fb rs redraw i c =
     (if i < 6 then (if rs c = None then c else retryCode_fb rs redraw (i + 1) (redraw i))
      else c)"
  by pat_completeness auto
termination
  by (relation "measure (\<lambda>(rs, redraw, i, c). 6 - i)") auto

definition createRoom_fb ::
  "client_fb \<Rightarrow> nat \<Rightarrow> nat \<Rightarrow> string \<Rightarrow> (nat \<Rightarrow> string) \<Rightarrow> rooms_fb
     \<Rightarrow> alert option \<times> client_fb \<times> rooms_fb" where
  "createRoom_fb c nowJoined nowCreated draw redraw rs =
     (if trim (name c) = [] then (Some EnterName, c, rs)
      else if \<not> configOk c then (Some NotConfigured, c, rs)
      else
        let cd = retryCode_fb rs redraw 0 draw in
        (None, c\<lparr>currentRoomCode := cd\<rparr>,
         rs(cd \<mapsto> \<lparr>code = Some cd, leaderId = Some (meId c), impostersCount = Num 1,
             started = False, turnIndex = Some 0,
             players = [\<lparr>pid = meId c, pname = trim (name c), role = Crewmate,
                         joinedAt = nowJoined\<rparr>],
             chat = Map.empty, createdAt = Some nowCreated\<rparr>)))"

text \<open>
  The function that \<^verbatim>\<open>joinRoom\<close> hands to \<^verbatim>\<open>runTransaction\<close> on the players:
  \<^verbatim>\<open>if (!players[meId]) players[meId] = {...}\<close>. The store lists the children of a node by
  key (for keys that are no numbers, as the ids are, in the order of the strings), so the
  new player stands in the list where its key does.
\<close>

definition joinTxn :: "client_fb \<Rightarrow> nat \<Rightarrow> player list \<Rightarrow> player list" where
  "joinTxn c now ps =
     (if find (\<lambda>p. pid p = meId c) ps = None
      then insort_key pid
             \<lparr>pid = meId c, pname = trim (name c), role = Crewmate, joinedAt = now\<rparr> ps
      else ps)"

text \<open>
  \<^verbatim>\<open>runTransaction(ref(db, `rooms/${code}/players`), f)\<close>: the store applies \<open>f\<close> to the
  players that it holds when the transaction commits (it runs \<open>f\<close> again when another
  write came in between), whatever an earlier \<^verbatim>\<open>get\<close> of the caller saw. An \<open>f\<close> that
  returns no players on a path that does not exist writes nothing; players written under
  a room that does not exist make a room with no other field.
\<close>

definition runTransaction_players ::
  "string \<Rightarrow> (player list \<Rightarrow> player list) \<Rightarrow> rooms_fb \<Rightarrow> rooms_fb" where
  "runTransaction_players cd f stored =
     (case stored cd of
        Some room \<Rightarrow> stored(cd \<mapsto> room\<lparr>players := f (players room)\<rparr>)
      | None \<Rightarrow>
          if f [] = [] then stored
          else stored(cd \<mapsto> \<lparr>code = None, leaderId = None, impostersCount = Null,
                 started = False, turnIndex = None, players = f [], chat = Map.empty,
                 createdAt = None\<rparr>))"

text \<open>
  \<^verbatim>\<open>joinRoom(code)\<close> with the two stores that it deals with: \<open>seen\<close> is what its \<^verbatim>\<open>get\<close>
  returned, \<open>stored\<close> what the store holds when its transaction commits. When no other
  client writes in between they are the same, which is \<open>joinRoom_fb\<close>.
\<close>

definition joinAfterGet_fb ::
  "client_fb \<Rightarrow> nat \<Rightarrow> string \<Rightarrow> rooms_fb \<Rightarrow> rooms_fb
     \<Rightarrow> alert option \<times> client_fb \<times> rooms_fb" where
  "joinAfterGet_fb c now cd0 seen stored =
     (if trim (name c) = [] then (Some EnterName, c, stored)
      else if \<not> configOk c then (Some NotConfigured, c, stored)
      else
        let cd = toUpperCase cd0 in
        case seen cd of
          None \<Rightarrow> (Some NoSuchRoom, c, stored)
        | Some room \<Rightarrow>
            if started room then (Some AlreadyStarted, c, stored)
            else (None, c\<lparr>currentRoomCode := cd\<rparr>,
                  runTransaction_players cd (joinTxn c now) stored))"

definition joinRoom_fb ::
  "client_fb \<Rightarrow> nat \<Rightarrow> string \<Rightarrow> rooms_fb \<Rightarrow> alert option \<times> client_fb \<times> rooms_fb" where
  "joinRoom_fb c now cd0 rs = joinAfterGet_fb c now cd0 rs rs"

text \<open>
  The function that \<^verbatim>\<open>leaveRoom\<close> and \<^verbatim>\<open>kickPlayer\<close> hand to \<^verbatim>\<open>runTransaction\<close>:
  \<^verbatim>\<open>delete players[id]\<close>.
\<close>

definition removeTxn :: "string \<Rightarrow> player list \<Rightarrow> player list" where
  "removeTxn i ps = filter (\<lambda>p. pid p \<noteq> i) ps"

text \<open>
  \<^verbatim>\<open>leaveRoom\<close> writes the store twice. First (\<^verbatim>\<open>// remove the player\<close>) the transaction on
  the players commits: \<open>leaveRemove_fb\<close> is the store after it.
\<close>

definition leaveRemove_fb :: "client_fb \<Rightarrow> rooms_fb \<Rightarrow> rooms_fb" where
  "leaveRemove_fb c stored = runTransaction_players (currentRoomCode c) (removeTxn (meId c)) stored"

text \<open>
  Then (\<^verbatim>\<open>// possible leader promotion or room cleanup\<close>) it reads the room again and, if
  the room is there and its \<^verbatim>\<open>leaderId\<close> is the caller's id, writes the first key as the
  new leader or removes the room.
\<close>

definition leaveSettle_fb :: "client_fb \<Rightarrow> rooms_fb \<Rightarrow> client_fb \<times> rooms_fb" where
  "leaveSettle_fb c stored =
     (let cd = currentRoomCode c in
      case stored cd of
        None \<Rightarrow> (c\<lparr>currentRoomCode := []\<rparr>, stored)
      | Some room \<Rightarrow>
          if leaderId room = Some (meId c) then
            (case map pid (players room) of
               newLeader # _ \<Rightarrow>
                 (c\<lparr>currentRoomCode := []\<rparr>, stored(cd \<mapsto> room\<lparr>leaderId := Some newLeader\<rparr>))
             | [] \<Rightarrow> (c\<lparr>currentRoomCode := []\<rparr>, stored(cd := None)))
          else (c\<lparr>currentRoomCode := []\<rparr>, stored))"

text \<open>The whole handler, when no other client writes between its two steps.\<close>

definition leaveRoom_fb :: "client_fb \<Rightarrow> rooms_fb \<Rightarrow> client_fb \<times> rooms_fb" where
  "leaveRoom_fb c rs =
     (if currentRoomCode c = [] then (c, rs)
      else if \<not> configOk c then (c\<lparr>currentRoomCode := []\<rparr>, rs)
      else leaveSettle_fb c (leaveRemove_fb c rs))"

text \<open>
  \<^verbatim>\<open>setImposterCount\<close>: \<^verbatim>\<open>Math.max(1, Math.min(count || 1, players.length || 1))\<close>, written
  by an \<^verbatim>\<open>update\<close> of \<^verbatim>\<open>rooms/code\<close> with no test that the room exists: on a missing room
  the store then holds a room with this one field.
\<close>

definition setImposterCount_fb ::
  "client_fb \<Rightarrow> string \<Rightarrow> jsnum \<Rightarrow> rooms_fb \<Rightarrow> alert option \<times> rooms_fb" where
  "setImposterCount_fb c cd cnt rs =
     (if \<not> configOk c then (Some NotConfigured, rs)
      else
        let n = (case rs cd of None \<Rightarrow> 0 | Some room \<Rightarrow> length (players room));
            safe = max 1 (min (orOne cnt) (if n = 0 then 1 else int n))
        in
        (None,
         case rs cd of
           None \<Rightarrow>
             rs(cd \<mapsto> \<lparr>code = None, leaderId = None, impostersCount = Num safe,
                 started = False, turnIndex = None, players = [], chat = Map.empty,
                 createdAt = None\<rparr>)
         | Some room \<Rightarrow> rs(cd \<mapsto> room\<lparr>impostersCount := Num safe\<rparr>)))"

text \<open>
  \<^verbatim>\<open>startGame(code)\<close>. The clock is read twice, for the key of the chat entry and for its
  \<^verbatim>\<open>ts\<close>. \<^verbatim>\<open>room.impostersCount || 1\<close> reads a stored 0 and a missing field as 1.
\<close>

definition startGame_fb ::
  "client_fb \<Rightarrow> (player list \<Rightarrow> player list) \<Rightarrow> nat \<Rightarrow> nat \<Rightarrow> string \<Rightarrow> rooms_fb
     \<Rightarrow> alert option \<times> rooms_fb" where
  "startGame_fb c shuffle nowKey nowTs cd rs =
     (if \<not> configOk c then (Some NotConfigured, rs)
      else case rs cd of
        None \<Rightarrow> (None, rs)
      | Some room \<Rightarrow>
          let ps = players room in
          if length ps = 0 then (None, rs)
          else
            let k = numImposters (orOne (impostersCount room)) (length ps);
                shuffled = shuffle ps;
                imposterIds = map pid (slice0 shuffled k)
            in (None,
                rs(cd \<mapsto> room\<lparr>players := assignRoles imposterIds ps, started := True,
                     turnIndex := Some 0,
                     chat := (chat room)(nowKey \<mapsto> SystemMsg (startedText (Num k)) nowTs)\<rparr>)))"

text \<open>
  \<^verbatim>\<open>sendHint(text)\<close>. With a missing \<^verbatim>\<open>turnIndex\<close> the remainder is \<^verbatim>\<open>NaN\<close>, the read of
  \<^verbatim>\<open>playerIds\<close> gives \<^verbatim>\<open>undefined\<close>, and that differs from \<^verbatim>\<open>meId\<close>.
\<close>

definition sendHint_fb ::
  "client_fb \<Rightarrow> nat \<Rightarrow> nat \<Rightarrow> jsstring \<Rightarrow> rooms_fb \<Rightarrow> alert option \<times> rooms_fb" where
  "sendHint_fb c nowKey nowTs txt rs =
     (if \<not> configOk c then (Some NotConfigured, rs)
      else
        let cd = currentRoomCode c in
        if cd = [] then (None, rs)
        else case rs cd of
          None \<Rightarrow> (None, rs)
        | Some room \<Rightarrow>
            let playerIds = map pid (players room) in
            if length playerIds = 0 then (None, rs)
            else
              (case turnIndex room of
                 None \<Rightarrow> (Some NotYourTurn, rs)
               | Some t \<Rightarrow>
                   if playerIds ! (t mod length playerIds) \<noteq> meId c then (Some NotYourTurn, rs)
                   else (None,
                     rs(cd \<mapsto> room\<lparr>
                          chat := (chat room)(nowKey \<mapsto>
                                    PlayerMsg (meId c) (trim (name c)) (trim txt) nowTs),
                          turnIndex := Some ((t + 1) mod length playerIds)\<rparr>))))"

definition submitHint_fb ::
  "client_fb \<Rightarrow> nat \<Rightarrow> nat \<Rightarrow> jsstring \<Rightarrow> rooms_fb \<Rightarrow> alert option \<times> rooms_fb" where
  "submitHint_fb c nowKey nowTs v rs =
     (if trim v \<noteq> [] then sendHint_fb c nowKey nowTs v rs else (None, rs))"

text \<open>
  \<^verbatim>\<open>kickPlayer(playerId)\<close>: the leader test (\<^verbatim>\<open>// only leader can kick (client-side check)\<close>)
  is made on the room that \<^verbatim>\<open>get\<close> returned, before the transaction on the players.
\<close>

definition kickPlayer_fb :: "client_fb \<Rightarrow> string \<Rightarrow> rooms_fb \<Rightarrow> alert option \<times> rooms_fb" where
  "kickPlayer_fb c playerId rs =
     (if currentRoomCode c = [] then (None, rs)
      else if \<not> configOk c then (Some NotConfigured, rs)
      else case rs (currentRoomCode c) of
        None \<Rightarrow> (None, rs)
      | Some room \<Rightarrow>
          if leaderId room \<noteq> Some (meId c) then (Some OnlyLeaderKicks, rs)
          else (None,
            rs(currentRoomCode c \<mapsto> room\<lparr>players := removeTxn playerId (players room)\<rparr>)))"



subsection \<open>Concrete rooms and clients\<close>

text \<open>Small rooms and clients on which the theorems below are evaluated.\<close>

definition demoPlayer :: "string \<Rightarrow> nat \<Rightarrow> player" where
  "demoPlayer i t = \<lparr>pid = i, pname = js i, role = Crewmate, joinedAt = t\<rparr>"

definition demoRoom_local :: "string option \<Rightarrow> nat \<Rightarrow> player list \<Rightarrow> room_local" where
  "demoRoom_local l t ps =
     \<lparr>code = ''ABC234'', leaderId = l, impostersCount = Num 1, started = False, turnIndex = t,
      players = ps, chat = [], createdAt = 0\<rparr>"

definition demoRoom_fb :: "string option \<Rightarrow> nat \<Rightarrow> player list \<Rightarrow> room_fb" where
  "demoRoom_fb l t ps =
     \<lparr>code = Some ''ABC234'', leaderId = l, impostersCount = Num 1, started = False,
      turnIndex = Some t, players = ps, chat = Map.empty, createdAt = Some 0\<rparr>"

definition demoClient_local :: "string \<Rightarrow> client_local" where
  "demoClient_local i = \<lparr>meId = i, name = js i, currentRoomCode = ''ABC234'', isLeaderView = False\<rparr>"

definition demoClient_fb :: "string \<Rightarrow> client_fb" where
  "demoClient_fb i = \<lparr>meId = i, name = js i, currentRoomCode = ''ABC234'', configOk = True\<rparr>"

subsection \<open>Measures used in the statements\<close>

text \<open>How many players of a list hold a role.\<close>

definition countRole :: "role \<Rightarrow> player list \<Rightarrow> nat" where
  "countRole r ps = length (filter (\<lambda>p. role p = r) ps)"

subsection \<open>Runs of hints\<close>

text \<open>
  Consecutive \<^verbatim>\<open>sendHint\<close> calls, each by a client with its clock reading and text: the
  outcome of every call, the store of each being the one the call before left.
\<close>

fun hintRun_local ::
  "(client_local \<times> nat \<times> jsstring) list \<Rightarrow> rooms_local \<Rightarrow> (alert option \<times> rooms_local) list" where
  "hintRun_local [] rs = []"
| "hintRun_local ((c, now, txt) # calls) rs =
     (let r = sendHint_local c now txt rs in r # hintRun_local calls (snd r))"

fun hintRun_fb ::
  "(client_fb \<times> nat \<times> nat \<times> jsstring) list \<Rightarrow> rooms_fb \<Rightarrow> (alert option \<times> rooms_fb) list" where
  "hintRun_fb [] rs = []"
| "hintRun_fb ((c, nowKey, nowTs, txt) # calls) rs =
     (let r = sendHint_fb c nowKey nowTs txt rs in r # hintRun_fb calls (snd r))"

text \<open>
  The id of the player whose turn it is in the room \<open>cd\<close>, as \<^verbatim>\<open>sendHint\<close> (and
  \<^verbatim>\<open>renderGame\<close>) compute it.
\<close>

definition currentId_local :: "rooms_local \<Rightarrow> string \<Rightarrow> string option" where
  "currentId_local rs cd =
     (case rs cd of None \<Rightarrow> None
      | Some room \<Rightarrow> map_option pid (atTurn (players room) (turnIndex room)))"

definition currentId_fb :: "rooms_fb \<Rightarrow> string \<Rightarrow> string option" where
  "currentId_fb rs cd =
     (case rs cd of None \<Rightarrow> None
      | Some room \<Rightarrow>
          (case turnIndex room of None \<Rightarrow> None
           | Some t \<Rightarrow> atTurn (map pid (players room)) t))"

text \<open>Every call of the list is made in the room \<open>cd\<close> by the member whose turn it is then.\<close>

fun inTurn_local :: "string \<Rightarrow> (client_local \<times> nat \<times> jsstring) list \<Rightarrow> rooms_local \<Rightarrow> bool" where
  "inTurn_local cd [] rs = True"
| "inTurn_local cd ((c, now, txt) # calls) rs =
     (currentRoomCode c = cd \<and> currentId_local rs cd = Some (meId c) \<and>
      inTurn_local cd calls (snd (sendHint_local c now txt rs)))"

fun inTurn_fb :: "string \<Rightarrow> (client_fb \<times> nat \<times> nat \<times> jsstring) list \<Rightarrow> rooms_fb \<Rightarrow> bool" where
  "inTurn_fb cd [] rs = True"
| "inTurn_fb cd ((c, nowKey, nowTs, txt) # calls) rs =
     (configOk c \<and> currentRoomCode c = cd \<and> currentId_fb rs cd = Some (meId c) \<and>
      inTurn_fb cd calls (snd (sendHint_fb c nowKey nowTs txt rs)))"

text \<open>The turn pointers that a run leaves in the room \<open>cd\<close>, call after call.\<close>

definition turnsOf_local :: "string \<Rightarrow> (alert option \<times> rooms_local) list \<Rightarrow> nat option list" where
  "turnsOf_local cd run = map (\<lambda>r. map_option turnIndex (snd r cd)) run"

definition turnsOf_fb :: "string \<Rightarrow> (alert option \<times> rooms_fb) list \<Rightarrow> nat option list" where
  "turnsOf_fb cd run = map (\<lambda>r. case snd r cd of None \<Rightarrow> None | Some room \<Rightarrow> turnIndex room) run"

subsection \<open>The member order of the specification\<close>

text \<open>
  The specification asks for the members ordered by \<^verbatim>\<open>joinedAt\<close> ascending, ties broken by
  \<^verbatim>\<open>id\<close>, wherever a member is taken by position. This definition follows the
  specification's words, not the source: neither component sorts its players.
\<close>

definition orderedMembers_spec :: "player list \<Rightarrow> player list" where
  "orderedMembers_spec ps = sort_key (\<lambda>p. (joinedAt p, pid p)) ps"

subsection \<open>The handlers as actions\<close>

text \<open>
  The handlers of a component that write the store, with their arguments, the clock
  readings, the code draws and the outcome of the random sort.
\<close>

datatype action_local =
    CreateRoom nat nat string "string list"
  | JoinRoom nat string
  | LeaveRoom
  | SetImposterCount string jsnum
  | StartGame "player list \<Rightarrow> player list" nat string
  | SendHint nat jsstring
  | KickPlayer string

datatype action_fb =
    CreateRoomF nat nat string "nat \<Rightarrow> string"
  | JoinRoomF nat string
  | LeaveRoomF
  | SetImposterCountF string jsnum
  | StartGameF "player list \<Rightarrow> player list" nat nat string
  | SendHintF nat nat jsstring
  | KickPlayerF string

text \<open>
  The store after a handler has run for a client; \<open>None\<close> when the code loop of the local
  \<^verbatim>\<open>createRoom\<close> has not ended within the draws given.
\<close>

fun exec_local :: "client_local \<Rightarrow> action_local \<Rightarrow> rooms_local \<Rightarrow> rooms_local option" where
  "exec_local c (CreateRoom nowJoined nowCreated draw draws) rs =
     map_option (\<lambda>r. snd (snd r)) (createRoom_local c nowJoined nowCreated draw draws rs)"
| "exec_local c (JoinRoom now cd) rs = Some (snd (snd (joinRoom_local c now cd rs)))"
| "exec_local c LeaveRoom rs = Some (snd (leaveRoom_local c rs))"
| "exec_local c (SetImposterCount cd cnt) rs = Some (setImposterCount_local cd cnt rs)"
| "exec_local c (StartGame shuffle now cd) rs = Some (startGame_local c shuffle now cd rs)"
| "exec_local c (SendHint now hint) rs = Some (snd (sendHint_local c now hint rs))"
| "exec_local c (KickPlayer playerId) rs = Some (kickPlayer_local c playerId rs)"

fun exec_fb :: "client_fb \<Rightarrow> action_fb \<Rightarrow> rooms_fb \<Rightarrow> rooms_fb" where
  "exec_fb c (CreateRoomF nowJoined nowCreated draw redraw) rs =
     snd (snd (createRoom_fb c nowJoined nowCreated draw redraw rs))"
| "exec_fb c (JoinRoomF now cd) rs = snd (snd (joinRoom_fb c now cd rs))"
| "exec_fb c LeaveRoomF rs = snd (leaveRoom_fb c rs)"
| "exec_fb c (SetImposterCountF cd cnt) rs = snd (setImposterCount_fb c cd cnt rs)"
| "exec_fb c (StartGameF shuffle nowKey nowTs cd) rs = snd (startGame_fb c shuffle nowKey nowTs cd rs)"
| "exec_fb c (SendHintF nowKey nowTs hint) rs = snd (sendHint_fb c nowKey nowTs hint rs)"
| "exec_fb c (KickPlayerF playerId) rs = snd (kickPlayer_fb c playerId rs)"


text \<open>Every stored room has an \<^verbatim>\<open>impostersCount\<close> that is an integer of at least 1.\<close>

definition countOk :: "(string \<rightharpoonup> ('c, 't, 'ch, 'ts) room) \<Rightarrow> bool" where
  "countOk rs = (\<forall>cd m. rs cd = Some m \<longrightarrow> (\<exists>i. impostersCount m = Num i \<and> 1 \<le> i))"

subsection \<open>The membership invariant\<close>

text \<open>
  Every stored room has a player, and its \<^verbatim>\<open>leaderId\<close> is the id of one of its players.
\<close>

definition membersOk :: "(string \<rightharpoonup> ('c, 't, 'ch, 'ts) room) \<Rightarrow> bool" where
  "membersOk rs =
     (\<forall>cd m. rs cd = Some m \<longrightarrow> players m \<noteq> [] \<and> leaderId m \<in> Some ` pid ` set (players m))"

section \<open>Properties\<close>

lemmas demo_defs = demoPlayer_def demoRoom_local_def demoRoom_fb_def demoClient_local_def
  demoClient_fb_def

lemmas run_defs = sendHint_local_def sendHint_fb_def currentId_local_def currentId_fb_def
  atTurn_def turnsOf_local_def turnsOf_fb_def

lemma trim_demo [simp]:
  "trim (js ''al'') = js ''al''" "trim (js ''bo'') = js ''bo''" "trim (js ''cy'') = js ''cy''"
  "trim (js ''hint'') = js ''hint''" "trim (js ''  '') = []" "trim [160] = []" "trim [] = []"
  "js ''al'' \<noteq> []" "js ''bo'' \<noteq> []" "js ''cy'' \<noteq> []" "js ''hint'' \<noteq> []"
  by (simp_all add: trim_def js_def isSpace_def)

lemma toUpperCase_demo [simp]: "toUpperCase ''abc234'' = ''ABC234''"
  by code_simp

lemma startedText_demo [simp]:
  "startedText (Num 1) = ''Game started. 1 imposters assigned.''"
  "startedText (Num 2) = ''Game started. 2 imposters assigned.''"
  "startedText NaN = ''Game started. NaN imposters assigned.''"
  by code_simp+

subsection \<open>A hint in a room without players\<close>

text \<open>
  Claim C10. In a stored room whose players are empty, \<^verbatim>\<open>sendHint\<close> changes nothing and
  throws nothing: the local component finds no current player and takes the branch of
  the not-your-turn alert, the Firebase component (configured) returns at the test of the
  empty id list. The store is the same afterwards, so no chat entry is added and
  \<^verbatim>\<open>turnIndex\<close> keeps its value.
\<close>

theorem sendHint_empty_players:
  assumes "rl (currentRoomCode cl) = Some ml" and "players ml = []"
      and "rf (currentRoomCode cf) = Some mf" and "players mf = []" and "configOk cf"
  shows "sendHint_local cl now txt rl = (Some NotYourTurn, rl) \<and>
         sendHint_fb cf nowKey nowTs txt rf = (None, rf)"
  using assms by (simp add: sendHint_local_def sendHint_fb_def atTurn_def Let_def)

theorem sendHint_empty_players_witness:
  "sendHint_local (demoClient_local ''al'') 7 (js ''hint'') [''ABC234'' \<mapsto> demoRoom_local None 0 []]
     = (Some NotYourTurn, [''ABC234'' \<mapsto> demoRoom_local None 0 []]) \<and>
   sendHint_fb (demoClient_fb ''al'') 7 8 (js ''hint'') [''ABC234'' \<mapsto> demoRoom_fb (Some ''al'') 0 []]
     = (None, [''ABC234'' \<mapsto> demoRoom_fb (Some ''al'') 0 []])"
  using sendHint_empty_players [of "[''ABC234'' \<mapsto> demoRoom_local None 0 []]"
      "demoClient_local ''al''" "demoRoom_local None 0 []"
      "[''ABC234'' \<mapsto> demoRoom_fb (Some ''al'') 0 []]" "demoClient_fb ''al''"
      "demoRoom_fb (Some ''al'') 0 []" 7 "js ''hint''" 7 8]
  by (simp add: demo_defs)

subsection \<open>Joining a room one is already in\<close>

lemma joinTxn_member:
  assumes "q \<in> set ps" and "pid q = meId c"
  shows "joinTxn c now ps = ps"
  using assms by (auto simp: joinTxn_def find_None_iff)

lemma joinTxn_currentRoomCode [simp]: "joinTxn (c\<lparr>currentRoomCode := x\<rparr>) now ps = joinTxn c now ps"
  by (simp add: joinTxn_def)

lemma joinTxn_idem: "joinTxn c now' (joinTxn c now ps) = joinTxn c now ps"
  by (auto simp: joinTxn_def find_None_iff set_insort_key)

lemma joinRoom_local_twice:
  "snd (snd (joinRoom_local (fst (snd (joinRoom_local c now cd rs))) now' cd
       (snd (snd (joinRoom_local c now cd rs))))) = snd (snd (joinRoom_local c now cd rs))"
  by (auto simp: joinRoom_local_def find_None_iff split: option.splits)

lemma joinRoom_fb_twice:
  "snd (snd (joinRoom_fb (fst (snd (joinRoom_fb c now cd rs))) now' cd
       (snd (snd (joinRoom_fb c now cd rs))))) = snd (snd (joinRoom_fb c now cd rs))"
  by (auto simp: joinRoom_fb_def joinAfterGet_fb_def runTransaction_players_def Let_def
      joinTxn_idem split: option.splits)

text \<open>
  Claim C7, as amended. In a room that has not started and of which the caller is
  already a member, \<^verbatim>\<open>joinRoom\<close> leaves the store as it is: the member count, and the name,
  role and \<^verbatim>\<open>joinedAt\<close> of the existing player, are unchanged. It succeeds (no alert, the
  caller enters the room) when the caller's display name is not blank, and stops at the
  enter-a-name alert when it is blank: that test comes before the test of membership, as
  does, in the Firebase component, the test that the component is configured. And from any
  store, a second \<^verbatim>\<open>joinRoom\<close> by the same client leaves the store that the first one
  produced, so joining twice gives the member count of joining once.
\<close>

theorem joinRoom_member_idempotent:
  assumes "rl cd = Some ml" and "\<not> started ml" and "p \<in> set (players ml)"
      and "pid p = meId cl"
      and "rf (toUpperCase cd') = Some mf" and "\<not> started mf" and "q \<in> set (players mf)"
      and "pid q = meId cf"
  shows "joinRoom_local cl now cd rl =
           (if trim (name cl) = [] then (Some EnterName, cl, rl)
            else (None, cl\<lparr>currentRoomCode := cd,
                          isLeaderView := (leaderId ml = Some (meId cl))\<rparr>, rl)) \<and>
         joinRoom_fb cf now cd' rf =
           (if trim (name cf) = [] then (Some EnterName, cf, rf)
            else if \<not> configOk cf then (Some NotConfigured, cf, rf)
            else (None, cf\<lparr>currentRoomCode := toUpperCase cd'\<rparr>, rf)) \<and>
         snd (snd (joinRoom_local (fst (snd (joinRoom_local cl now cd rs))) now' cd
             (snd (snd (joinRoom_local cl now cd rs))))) = snd (snd (joinRoom_local cl now cd rs)) \<and>
         snd (snd (joinRoom_fb (fst (snd (joinRoom_fb cf now cd' rs'))) now' cd'
             (snd (snd (joinRoom_fb cf now cd' rs'))))) = snd (snd (joinRoom_fb cf now cd' rs'))"
proof -
  have "find (\<lambda>p. pid p = meId cl) (players ml) \<noteq> None"
    using assms(3,4) by (auto simp: find_None_iff)
  then have l: "joinRoom_local cl now cd rl =
      (if trim (name cl) = [] then (Some EnterName, cl, rl)
       else (None, cl\<lparr>currentRoomCode := cd,
                     isLeaderView := (leaderId ml = Some (meId cl))\<rparr>, rl))"
    using assms(1,2) by (simp add: joinRoom_local_def)
  have "joinTxn cf now (players mf) = players mf"
    using assms(7,8) by (rule joinTxn_member)
  then have f: "joinRoom_fb cf now cd' rf =
      (if trim (name cf) = [] then (Some EnterName, cf, rf)
       else if \<not> configOk cf then (Some NotConfigured, cf, rf)
       else (None, cf\<lparr>currentRoomCode := toUpperCase cd'\<rparr>, rf))"
    using assms(5,6)
    by (simp add: joinRoom_fb_def joinAfterGet_fb_def runTransaction_players_def Let_def
        fun_upd_idem)
  show ?thesis using l f joinRoom_local_twice joinRoom_fb_twice by blast
qed

theorem joinRoom_member_idempotent_witness:
  "joinRoom_local (demoClient_local ''bo'') 9 ''ABC234''
       [''ABC234'' \<mapsto> demoRoom_local (Some ''al'') 0 [demoPlayer ''al'' 1, demoPlayer ''bo'' 2]]
     = (None, demoClient_local ''bo'',
        [''ABC234'' \<mapsto> demoRoom_local (Some ''al'') 0 [demoPlayer ''al'' 1, demoPlayer ''bo'' 2]]) \<and>
   joinRoom_fb (demoClient_fb ''bo'') 9 ''abc234''
       [''ABC234'' \<mapsto> demoRoom_fb (Some ''al'') 0 [demoPlayer ''al'' 1, demoPlayer ''bo'' 2]]
     = (None, demoClient_fb ''bo'',
        [''ABC234'' \<mapsto> demoRoom_fb (Some ''al'') 0 [demoPlayer ''al'' 1, demoPlayer ''bo'' 2]])"
  using joinRoom_member_idempotent [of
      "[''ABC234'' \<mapsto> demoRoom_local (Some ''al'') 0 [demoPlayer ''al'' 1, demoPlayer ''bo'' 2]]"
      "''ABC234''" "demoRoom_local (Some ''al'') 0 [demoPlayer ''al'' 1, demoPlayer ''bo'' 2]"
      "demoPlayer ''bo'' 2" "demoClient_local ''bo''"
      "[''ABC234'' \<mapsto> demoRoom_fb (Some ''al'') 0 [demoPlayer ''al'' 1, demoPlayer ''bo'' 2]]"
      "''abc234''" "demoRoom_fb (Some ''al'') 0 [demoPlayer ''al'' 1, demoPlayer ''bo'' 2]"
      "demoPlayer ''bo'' 2" "demoClient_fb ''bo''" 9]
  by (simp add: demo_defs)

text \<open>
  The claim as stated fails for a member whose display name is blank (in the local
  component \<^verbatim>\<open>name\<close> is empty again after a reload, while the rooms and \<^verbatim>\<open>meId\<close> persist;
  a name of the one character U+00A0 is blank as well): \<^verbatim>\<open>joinRoom\<close> does not succeed,
  it raises the enter-a-name alert and the caller does not enter the room.
\<close>

theorem joinRoom_member_idempotent_counterexample:
  "find (\<lambda>p. pid p = ''bo'') [demoPlayer ''al'' 1, demoPlayer ''bo'' 2] = Some (demoPlayer ''bo'' 2) \<and>
   joinRoom_local ((demoClient_local ''bo'')\<lparr>name := [], currentRoomCode := []\<rparr>) 9 ''ABC234''
       [''ABC234'' \<mapsto> demoRoom_local (Some ''al'') 0 [demoPlayer ''al'' 1, demoPlayer ''bo'' 2]]
     = (Some EnterName, (demoClient_local ''bo'')\<lparr>name := [], currentRoomCode := []\<rparr>,
        [''ABC234'' \<mapsto> demoRoom_local (Some ''al'') 0 [demoPlayer ''al'' 1, demoPlayer ''bo'' 2]]) \<and>
   joinRoom_fb ((demoClient_fb ''bo'')\<lparr>name := [160], currentRoomCode := []\<rparr>) 9 ''ABC234''
       [''ABC234'' \<mapsto> demoRoom_fb (Some ''al'') 0 [demoPlayer ''al'' 1, demoPlayer ''bo'' 2]]
     = (Some EnterName, (demoClient_fb ''bo'')\<lparr>name := [160], currentRoomCode := []\<rparr>,
        [''ABC234'' \<mapsto> demoRoom_fb (Some ''al'') 0 [demoPlayer ''al'' 1, demoPlayer ''bo'' 2]])"
  by (simp add: demo_defs joinRoom_local_def joinRoom_fb_def joinAfterGet_fb_def)

subsection \<open>Role assignment at the start of a game\<close>

lemma filter_take_distinct:
  assumes "distinct (map f xs)"
  shows "filter (\<lambda>x. f x \<in> set (map f (take m xs))) xs = take m xs"
proof -
  have d: "distinct (map f (take m xs) @ map f (drop m xs))"
    using assms by (metis append_take_drop_id map_append)
  have a: "filter (\<lambda>x. f x \<in> set (map f (take m xs))) (take m xs) = take m xs"
    by (rule filter_True) auto
  have b: "filter (\<lambda>x. f x \<in> set (map f (take m xs))) (drop m xs) = []"
    using d by (auto simp: filter_empty_conv)
  have "filter (\<lambda>x. f x \<in> set (map f (take m xs))) (take m xs @ drop m xs) = take m xs"
    unfolding filter_append a b by simp
  then show ?thesis by simp
qed

lemma length_filter_mset_eq:
  assumes "mset xs = mset ys"
  shows "length (filter P xs) = length (filter P ys)"
proof -
  have "mset (filter P xs) = mset (filter P ys)"
    using assms by (simp only: mset_filter)
  then show ?thesis by (metis size_mset)
qed

lemma distinct_map_mset_eq:
  assumes "mset xs = mset ys" and "distinct (map f ys)"
  shows "distinct (map f xs)"
proof -
  have "mset (map f xs) = mset (map f ys)"
    using assms(1) by (metis mset_map)
  then show ?thesis using assms(2) by (metis mset_eq_imp_distinct_iff)
qed

lemma countRole_assignRoles:
  "countRole Imposter (assignRoles ids ps) = length (filter (\<lambda>p. pid p \<in> set ids) ps)"
  "countRole Crewmate (assignRoles ids ps) = length (filter (\<lambda>p. pid p \<notin> set ids) ps)"
  by (simp_all add: countRole_def assignRoles_def filter_map comp_def)

lemma imposters_chosen:
  assumes "distinct (map pid ps)" and "mset shuffled = mset ps" and "m \<le> length ps"
  shows "countRole Imposter (assignRoles (map pid (take m shuffled)) ps) = m"
    and "countRole Crewmate (assignRoles (map pid (take m shuffled)) ps) = length ps - m"
proof -
  let ?P = "\<lambda>p. pid p \<in> set (map pid (take m shuffled))"
  have len: "length shuffled = length ps"
    using assms(2) by (metis size_mset)
  have d: "distinct (map pid shuffled)"
    using distinct_map_mset_eq[OF assms(2) assms(1)] .
  have "length (filter ?P ps) = length (filter ?P shuffled)"
    using length_filter_mset_eq[OF assms(2), of ?P] by simp
  also have "\<dots> = length (take m shuffled)"
    using filter_take_distinct[OF d] by simp
  also have "\<dots> = m" using assms(3) len by simp
  finally have i: "length (filter ?P ps) = m" .
  then show "countRole Imposter (assignRoles (map pid (take m shuffled)) ps) = m"
    by (simp add: countRole_assignRoles)
  have "length (filter ?P ps) + length (filter (\<lambda>p. \<not> ?P p) ps) = length ps"
    by (rule sum_length_filter_compl)
  then show "countRole Crewmate (assignRoles (map pid (take m shuffled)) ps) = length ps - m"
    using i by (simp add: countRole_assignRoles)
qed

lemma numImposters_bounds:
  assumes "1 \<le> ic" and "0 < n"
  shows "1 \<le> numImposters ic n" and "numImposters ic n \<le> int n"
  using assms by (auto simp: numImposters_def min_def max_def)

lemma map_pid_assignRoles: "map pid (assignRoles ids ps) = map pid ps"
  by (simp add: assignRoles_def)

lemma startGame_roles:
  assumes "ps \<noteq> []" and "distinct (map pid ps)" and "1 \<le> ic"
      and "mset (shuffle ps) = mset ps"
  shows "int (countRole Imposter
            (assignRoles (map pid (slice0 (shuffle ps) (numImposters ic (length ps)))) ps))
           = numImposters ic (length ps)"
    and "countRole Crewmate
            (assignRoles (map pid (slice0 (shuffle ps) (numImposters ic (length ps)))) ps)
           = length ps - nat (numImposters ic (length ps))"
proof -
  define k where "k = numImposters ic (length ps)"
  have n: "0 < length ps" using assms(1) by simp
  have k1: "1 \<le> k" and k2: "k \<le> int (length ps)"
    using numImposters_bounds[OF assms(3) n] by (simp_all add: k_def)
  have s: "slice0 (shuffle ps) k = take (nat k) (shuffle ps)"
    using k1 by (simp add: slice0_def)
  have m: "nat k \<le> length ps" using k2 by simp
  have "countRole Imposter (assignRoles (map pid (take (nat k) (shuffle ps))) ps) = nat k"
    using imposters_chosen(1)[OF assms(2) assms(4) m] .
  then have "int (countRole Imposter (assignRoles (map pid (slice0 (shuffle ps) k)) ps)) = k"
    using k1 by (simp add: s)
  then show "int (countRole Imposter
      (assignRoles (map pid (slice0 (shuffle ps) (numImposters ic (length ps)))) ps))
      = numImposters ic (length ps)"
    by (simp only: k_def)
  have "countRole Crewmate (assignRoles (map pid (take (nat k) (shuffle ps))) ps)
      = length ps - nat k"
    using imposters_chosen(2)[OF assms(2) assms(4) m] .
  then have "countRole Crewmate (assignRoles (map pid (slice0 (shuffle ps) k)) ps)
      = length ps - nat k"
    by (simp only: s)
  then show "countRole Crewmate
      (assignRoles (map pid (slice0 (shuffle ps) (numImposters ic (length ps)))) ps)
      = length ps - nat (numImposters ic (length ps))"
    by (simp only: k_def)
qed

lemma startGame_local_result:
  assumes "rl cd = Some ml" and "impostersCount ml = Num il"
  shows "startGame_local cl shuffle now cd rl =
     rl(cd \<mapsto> ml\<lparr>players := assignRoles (map pid (slice0 (shuffle (players ml))
             (numImposters il (length (players ml))))) (players ml),
           started := True, turnIndex := 0,
           chat := chat ml @ [SystemMsg (startedText
             (Num (numImposters il (length (players ml))))) now]\<rparr>)"
  using assms
  by (simp add: startGame_local_def Let_def mathMin_def toNumber_def sliceNum_def
      numImposters_def)

lemma startGame_fb_result:
  assumes "rf cd = Some mf" and "configOk cf" and "players mf \<noteq> []"
      and "impostersCount mf = Num il" and "il \<noteq> 0"
  shows "startGame_fb cf shuffle nowKey nowTs cd rf =
     (None, rf(cd \<mapsto> mf\<lparr>players := assignRoles (map pid (slice0 (shuffle (players mf))
             (numImposters il (length (players mf))))) (players mf),
           started := True, turnIndex := Some 0,
           chat := (chat mf)(nowKey \<mapsto> SystemMsg (startedText
             (Num (numImposters il (length (players mf))))) nowTs)\<rparr>))"
  using assms by (simp add: startGame_fb_def Let_def orOne_def)

text \<open>
  Claim C2. In a stored room with at least one member, whose player ids are distinct and
  whose \<^verbatim>\<open>impostersCount\<close> is an integer of at least 1 (as in the rooms of the data model),
  \<^verbatim>\<open>startGame\<close> with any outcome of the random sort that is a permutation of the players
  stores the room with \<^verbatim>\<open>started = true\<close> and \<^verbatim>\<open>turnIndex = 0\<close>, adds the one System chat
  entry whose text reports \<open>k = min(impostersCount, max(1, floor(n/2)))\<close> (pushed on the
  array locally, written under the key of the clock reading in Firebase), and gives
  exactly \<open>k\<close> players the role imposter and the other \<open>n - k\<close> the role crewmate, the
  players being otherwise the same. The Firebase component is taken as configured.
\<close>

theorem startGame_assigns_roles:
  assumes "rl cd = Some ml" and "players ml \<noteq> []" and "distinct (map pid (players ml))"
      and "impostersCount ml = Num il" and "1 \<le> il"
      and "mset (shuffle (players ml)) = mset (players ml)"
      and "configOk cf"
      and "rf cd' = Some mf" and "players mf \<noteq> []" and "distinct (map pid (players mf))"
      and "impostersCount mf = Num ic" and "1 \<le> ic"
      and "mset (shuffle' (players mf)) = mset (players mf)"
  shows "(case startGame_local cl shuffle now cd rl cd of
            None \<Rightarrow> False
          | Some m' \<Rightarrow>
              startGame_local cl shuffle now cd rl = rl(cd \<mapsto> m') \<and>
              started m' \<and> turnIndex m' = 0 \<and>
              chat m' = chat ml @
                [SystemMsg (''Game started. '' @
                   string_of_int (min il (max 1 (int (length (players ml)) div 2))) @
                   '' imposters assigned.'') now] \<and>
              int (countRole Imposter (players m')) =
                min il (max 1 (int (length (players ml)) div 2)) \<and>
              countRole Crewmate (players m') = length (players ml) -
                nat (min il (max 1 (int (length (players ml)) div 2))) \<and>
              map pid (players m') = map pid (players ml)) \<and>
         fst (startGame_fb cf shuffle' nowKey nowTs cd' rf) = None \<and>
         (case snd (startGame_fb cf shuffle' nowKey nowTs cd' rf) cd' of
            None \<Rightarrow> False
          | Some m' \<Rightarrow>
              snd (startGame_fb cf shuffle' nowKey nowTs cd' rf) = rf(cd' \<mapsto> m') \<and>
              started m' \<and> turnIndex m' = Some 0 \<and>
              chat m' = (chat mf)(nowKey \<mapsto>
                SystemMsg (''Game started. '' @
                   string_of_int (min ic (max 1 (int (length (players mf)) div 2))) @
                   '' imposters assigned.'') nowTs) \<and>
              int (countRole Imposter (players m')) =
                min ic (max 1 (int (length (players mf)) div 2)) \<and>
              countRole Crewmate (players m') = length (players mf) -
                nat (min ic (max 1 (int (length (players mf)) div 2))) \<and>
              map pid (players m') = map pid (players mf))"
proof -
  have kl: "min il (max 1 (int (length (players ml)) div 2)) =
      numImposters il (length (players ml))"
    by (simp only: numImposters_def)
  have kf: "min ic (max 1 (int (length (players mf)) div 2)) =
      numImposters ic (length (players mf))"
    by (simp only: numImposters_def)
  have z: "ic \<noteq> 0" using assms(12) by simp
  note rl = startGame_roles[of "players ml" il shuffle, OF assms(2,3,5,6)]
  note rf = startGame_roles[of "players mf" ic shuffle', OF assms(9,10,12,13)]
  have loc: "case startGame_local cl shuffle now cd rl cd of
            None \<Rightarrow> False
          | Some m' \<Rightarrow>
              startGame_local cl shuffle now cd rl = rl(cd \<mapsto> m') \<and>
              started m' \<and> turnIndex m' = 0 \<and>
              chat m' = chat ml @
                [SystemMsg (''Game started. '' @
                   string_of_int (min il (max 1 (int (length (players ml)) div 2))) @
                   '' imposters assigned.'') now] \<and>
              int (countRole Imposter (players m')) =
                min il (max 1 (int (length (players ml)) div 2)) \<and>
              countRole Crewmate (players m') = length (players ml) -
                nat (min il (max 1 (int (length (players ml)) div 2))) \<and>
              map pid (players m') = map pid (players ml)"
    unfolding kl startGame_local_result[of rl cd ml il, OF assms(1,4)]
    using rl by (simp add: startedText_def string_of_jsnum_def map_pid_assignRoles)
  have fb: "fst (startGame_fb cf shuffle' nowKey nowTs cd' rf) = None \<and>
         (case snd (startGame_fb cf shuffle' nowKey nowTs cd' rf) cd' of
            None \<Rightarrow> False
          | Some m' \<Rightarrow>
              snd (startGame_fb cf shuffle' nowKey nowTs cd' rf) = rf(cd' \<mapsto> m') \<and>
              started m' \<and> turnIndex m' = Some 0 \<and>
              chat m' = (chat mf)(nowKey \<mapsto>
                SystemMsg (''Game started. '' @
                   string_of_int (min ic (max 1 (int (length (players mf)) div 2))) @
                   '' imposters assigned.'') nowTs) \<and>
              int (countRole Imposter (players m')) =
                min ic (max 1 (int (length (players mf)) div 2)) \<and>
              countRole Crewmate (players m') = length (players mf) -
                nat (min ic (max 1 (int (length (players mf)) div 2))) \<and>
              map pid (players m') = map pid (players mf))"
    unfolding kf startGame_fb_result[of rf cd' mf cf ic, OF assms(8) assms(7) assms(9) assms(11) z]
    using rf by (simp add: startedText_def string_of_jsnum_def map_pid_assignRoles)
  show ?thesis using loc fb by (rule conjI)
qed

theorem startGame_assigns_roles_witness:
  "startGame_local (demoClient_local ''al'') rev 5 ''ABC234''
       [''ABC234'' \<mapsto> demoRoom_local (Some ''al'') 0 [demoPlayer ''al'' 1, demoPlayer ''bo'' 2]]
     = [''ABC234'' \<mapsto> (demoRoom_local (Some ''al'') 0
           [demoPlayer ''al'' 1, (demoPlayer ''bo'' 2)\<lparr>role := Imposter\<rparr>])
           \<lparr>started := True, chat := [SystemMsg ''Game started. 1 imposters assigned.'' 5]\<rparr>] \<and>
   startGame_fb (demoClient_fb ''al'') rev 5 6 ''ABC234''
       [''ABC234'' \<mapsto> demoRoom_fb (Some ''al'') 0 [demoPlayer ''al'' 1, demoPlayer ''bo'' 2]]
     = (None, [''ABC234'' \<mapsto> (demoRoom_fb (Some ''al'') 0
           [demoPlayer ''al'' 1, (demoPlayer ''bo'' 2)\<lparr>role := Imposter\<rparr>])
           \<lparr>started := True, chat := [5 \<mapsto> SystemMsg ''Game started. 1 imposters assigned.'' 6]\<rparr>])"
  using startGame_assigns_roles [of
      "[''ABC234'' \<mapsto> demoRoom_local (Some ''al'') 0 [demoPlayer ''al'' 1, demoPlayer ''bo'' 2]]"
      "''ABC234''" "demoRoom_local (Some ''al'') 0 [demoPlayer ''al'' 1, demoPlayer ''bo'' 2]"
      1 rev "demoClient_fb ''al''"
      "[''ABC234'' \<mapsto> demoRoom_fb (Some ''al'') 0 [demoPlayer ''al'' 1, demoPlayer ''bo'' 2]]"
      "''ABC234''" "demoRoom_fb (Some ''al'') 0 [demoPlayer ''al'' 1, demoPlayer ''bo'' 2]"
      1 rev "demoClient_local ''al''" 5 5 6]
  by (simp add: demo_defs startGame_local_def startGame_fb_def numImposters_def slice0_def
      assignRoles_def mathMin_def toNumber_def sliceNum_def orOne_def)

subsection \<open>Turn rotation\<close>

lemma mod_cycle_le:
  assumes "(t + i) mod N = (t + j) mod N" and "i \<le> j" and "1 \<le> i" and "j \<le> N"
  shows "i = (j::nat)"
proof -
  have "N dvd (t + j) - (t + i)"
    using mod_eq_dvd_iff_nat[of "t + i" "t + j" N] assms(1,2) by simp
  then have d: "N dvd j - i" by simp
  have "j - i < N" using assms(2,3,4) by arith
  then have "j - i = 0" using d by (meson nat_dvd_not_less neq0_conv)
  then show ?thesis using assms(2) by simp
qed

lemma mod_cycle_inj:
  assumes "(t + i) mod N = (t + j) mod N" and "1 \<le> i" and "i \<le> N" and "1 \<le> j" and "j \<le> N"
  shows "i = (j::nat)"
proof (cases "i \<le> j")
  case True
  then show ?thesis using mod_cycle_le[OF assms(1) True assms(2) assms(5)] by simp
next
  case False
  then have "j \<le> i" by simp
  then show ?thesis using mod_cycle_le[OF assms(1)[symmetric] _ assms(4) assms(3)] by simp
qed

text \<open>The pointer values after each of \<open>N\<close> advances from \<open>t\<close>.\<close>

lemma mod_cycle_distinct:
  "distinct (map (\<lambda>i. (t + i) mod N) [1..<Suc N])"
proof -
  have "inj_on (\<lambda>i. (t + i) mod N) (set [1..<Suc N])"
    by (rule inj_onI) (auto intro: mod_cycle_inj)
  then show ?thesis by (simp add: distinct_map)
qed

lemma mod_cycle_set:
  assumes "0 < N"
  shows "set (map (\<lambda>i. (t + i) mod N) [1..<Suc N]) = {0..<N}"
proof (rule card_subset_eq)
  show "finite {0..<N}" by simp
  show "set (map (\<lambda>i. (t + i) mod N) [1..<Suc N]) \<subseteq> {0..<N}"
    using assms by auto
  have "card (set (map (\<lambda>i. (t + i) mod N) [1..<Suc N])) = length (map (\<lambda>i. (t + i) mod N) [1..<Suc N])"
    using mod_cycle_distinct[of t N] by (rule distinct_card)
  then show "card (set (map (\<lambda>i. (t + i) mod N) [1..<Suc N])) = card {0..<N}"
    by simp
qed

lemma mod_cycle_last:
  assumes "0 < N"
  shows "last (map (\<lambda>i. (t + i) mod N) [1..<Suc N]) = t mod N"
proof -
  have "[1..<Suc N] \<noteq> []" using assms by simp
  then have "last (map (\<lambda>i. (t + i) mod N) [1..<Suc N]) = (t + last [1..<Suc N]) mod N"
    by (simp add: last_map)
  also have "last [1..<Suc N] = N" using assms by simp
  finally show ?thesis by simp
qed

lemma sendHint_local_inTurn:
  assumes "rs cd = Some m" and "players m \<noteq> []" and "currentRoomCode c = cd"
      and "currentId_local rs cd = Some (meId c)"
  shows "sendHint_local c now txt rs =
     (None, rs(cd \<mapsto> m\<lparr>chat := chat m @ [PlayerMsg (meId c) (trim (name c)) (trim txt) now],
                         turnIndex := (turnIndex m + 1) mod length (players m)\<rparr>))"
  using assms by (auto simp: sendHint_local_def currentId_local_def atTurn_def)

lemma sendHint_fb_inTurn:
  assumes "rs cd = Some m" and "players m \<noteq> []" and "currentRoomCode c = cd" and "configOk c"
      and "turnIndex m = Some t" and "cd \<noteq> []"
      and "currentId_fb rs cd = Some (meId c)"
  shows "sendHint_fb c nowKey nowTs txt rs =
     (None, rs(cd \<mapsto> m\<lparr>chat := (chat m)(nowKey \<mapsto>
                             PlayerMsg (meId c) (trim (name c)) (trim txt) nowTs),
                         turnIndex := Some ((t + 1) mod length (players m))\<rparr>))"
  using assms by (auto simp: sendHint_fb_def currentId_fb_def atTurn_def Let_def)

lemma cycle_unfold:
  "map (\<lambda>i. Some ((t + i) mod N)) [1..<Suc (Suc k)] =
     Some ((t + 1) mod N) # map (\<lambda>i. Some (((t + 1) mod N + i) mod (N::nat))) [1..<Suc k]"
proof -
  have "[1..<Suc (Suc k)] = 1 # map Suc [1..<Suc k]"
    by (metis One_nat_def map_Suc_upt upt_conv_Cons zero_less_Suc Suc_less_eq)
  moreover have "\<And>i. ((t + 1) mod N + i) mod N = (t + Suc i) mod N"
    by (simp add: mod_add_left_eq)
  ultimately show ?thesis by (simp add: comp_def del: upt_Suc)
qed

lemma hintRun_local_turns:
  assumes "rs cd = Some m" and "players m \<noteq> []" and "inTurn_local cd calls rs"
  shows "map fst (hintRun_local calls rs) = replicate (length calls) None \<and>
         turnsOf_local cd (hintRun_local calls rs) =
           map (\<lambda>i. Some ((turnIndex m + i) mod length (players m))) [1..<Suc (length calls)]"
  using assms
proof (induction calls arbitrary: rs m)
  case Nil
  then show ?case by (simp add: turnsOf_local_def)
next
  case (Cons call calls)
  obtain c now hint where call: "call = (c, now, hint)" by (cases call)
  define m' where "m' = m\<lparr>chat := chat m @ [PlayerMsg (meId c) (trim (name c)) (trim hint) now],
                turnIndex := (turnIndex m + 1) mod length (players m)\<rparr>"
  have cur: "currentRoomCode c = cd" "currentId_local rs cd = Some (meId c)"
    and rest: "inTurn_local cd calls (snd (sendHint_local c now hint rs))"
    using Cons.prems(3) by (simp_all add: call)
  have step: "sendHint_local c now hint rs = (None, rs(cd \<mapsto> m'))"
    using sendHint_local_inTurn[OF Cons.prems(1,2) cur] by (simp add: m'_def)
  have m': "players m' = players m" "turnIndex m' = (turnIndex m + 1) mod length (players m)"
    by (simp_all add: m'_def)
  have "(rs(cd \<mapsto> m')) cd = Some m'" by simp
  moreover have "players m' \<noteq> []" using Cons.prems(2) m'(1) by simp
  moreover have "inTurn_local cd calls (rs(cd \<mapsto> m'))" using rest step by simp
  ultimately have ih:
    "map fst (hintRun_local calls (rs(cd \<mapsto> m'))) = replicate (length calls) None \<and>
      turnsOf_local cd (hintRun_local calls (rs(cd \<mapsto> m'))) =
        map (\<lambda>i. Some ((turnIndex m' + i) mod length (players m'))) [1..<Suc (length calls)]"
    by (rule Cons.IH)
  have run: "hintRun_local (call # calls) rs =
      (None, rs(cd \<mapsto> m')) # hintRun_local calls (rs(cd \<mapsto> m'))"
    by (simp add: call step)
  have a: "map fst (hintRun_local (call # calls) rs) = replicate (length (call # calls)) None"
    using ih by (simp add: run)
  have "turnsOf_local cd (hintRun_local (call # calls) rs) =
      Some (turnIndex m') # turnsOf_local cd (hintRun_local calls (rs(cd \<mapsto> m')))"
    by (simp add: run turnsOf_local_def)
  also have "\<dots> = Some ((turnIndex m + 1) mod length (players m)) #
      map (\<lambda>i. Some (((turnIndex m + 1) mod length (players m) + i) mod length (players m)))
        [1..<Suc (length calls)]"
    using ih by (simp only: m')
  also have "\<dots> = map (\<lambda>i. Some ((turnIndex m + i) mod length (players m)))
      [1..<Suc (Suc (length calls))]"
    by (rule cycle_unfold[symmetric])
  finally show ?case using a by simp
qed

lemma hintRun_fb_turns:
  assumes "rs cd = Some m" and "players m \<noteq> []" and "turnIndex m = Some t" and "cd \<noteq> []"
      and "inTurn_fb cd calls rs"
  shows "map fst (hintRun_fb calls rs) = replicate (length calls) None \<and>
         turnsOf_fb cd (hintRun_fb calls rs) =
           map (\<lambda>i. Some ((t + i) mod length (players m))) [1..<Suc (length calls)]"
  using assms
proof (induction calls arbitrary: rs m t)
  case Nil
  then show ?case by (simp add: turnsOf_fb_def)
next
  case (Cons call calls)
  obtain c nowKey nowTs hint where call: "call = (c, nowKey, nowTs, hint)" by (cases call)
  define m' where "m' = m\<lparr>chat := (chat m)(nowKey \<mapsto>
                            PlayerMsg (meId c) (trim (name c)) (trim hint) nowTs),
                turnIndex := Some ((t + 1) mod length (players m))\<rparr>"
  have cur: "currentRoomCode c = cd" "configOk c"
    and cid: "currentId_fb rs cd = Some (meId c)"
    and rest: "inTurn_fb cd calls (snd (sendHint_fb c nowKey nowTs hint rs))"
    using Cons.prems(5) by (simp_all add: call)
  have step: "sendHint_fb c nowKey nowTs hint rs = (None, rs(cd \<mapsto> m'))"
    using sendHint_fb_inTurn[OF Cons.prems(1,2) cur Cons.prems(3,4) cid] by (simp add: m'_def)
  have m': "players m' = players m" "turnIndex m' = Some ((t + 1) mod length (players m))"
    by (simp_all add: m'_def)
  have "(rs(cd \<mapsto> m')) cd = Some m'" by simp
  moreover have "players m' \<noteq> []" using Cons.prems(2) m'(1) by simp
  moreover note m'(2) Cons.prems(4)
  moreover have "inTurn_fb cd calls (rs(cd \<mapsto> m'))" using rest step by simp
  ultimately have ih:
    "map fst (hintRun_fb calls (rs(cd \<mapsto> m'))) = replicate (length calls) None \<and>
      turnsOf_fb cd (hintRun_fb calls (rs(cd \<mapsto> m'))) =
        map (\<lambda>i. Some (((t + 1) mod length (players m) + i) mod length (players m')))
          [1..<Suc (length calls)]"
    by (rule Cons.IH)
  have run: "hintRun_fb (call # calls) rs =
      (None, rs(cd \<mapsto> m')) # hintRun_fb calls (rs(cd \<mapsto> m'))"
    by (simp add: call step)
  have a: "map fst (hintRun_fb (call # calls) rs) = replicate (length (call # calls)) None"
    using ih by (simp add: run)
  have "turnsOf_fb cd (hintRun_fb (call # calls) rs) =
      turnIndex m' # turnsOf_fb cd (hintRun_fb calls (rs(cd \<mapsto> m')))"
    by (simp add: run turnsOf_fb_def)
  also have "\<dots> = Some ((t + 1) mod length (players m)) #
      map (\<lambda>i. Some (((t + 1) mod length (players m) + i) mod length (players m)))
        [1..<Suc (length calls)]"
    using ih by (simp only: m')
  also have "\<dots> = map (\<lambda>i. Some ((t + i) mod length (players m)))
      [1..<Suc (Suc (length calls))]"
    by (rule cycle_unfold[symmetric])
  finally show ?case using a by simp
qed

lemma cycle_facts:
  assumes "0 < N"
  shows "distinct (map (\<lambda>i. Some ((t + i) mod N)) [1..<Suc N]) \<and>
         set (map (\<lambda>i. Some ((t + i) mod N)) [1..<Suc N]) = Some ` {0..<N} \<and>
         last (map (\<lambda>i. Some ((t + i) mod N)) [1..<Suc N]) = Some (t mod N)"
proof -
  have m: "map (\<lambda>i. Some ((t + i) mod N)) [1..<Suc N] =
      map Some (map (\<lambda>i. (t + i) mod N) [1..<Suc N])"
    by (simp add: comp_def del: upt_Suc)
  have ne: "map (\<lambda>i. (t + i) mod N) [1..<Suc N] \<noteq> []" using assms by simp
  have d: "distinct (map Some (map (\<lambda>i. (t + i) mod N) [1..<Suc N]))"
    using mod_cycle_distinct[of t N] by (simp only: distinct_map) (simp del: upt_Suc)
  have s: "set (map Some (map (\<lambda>i. (t + i) mod N) [1..<Suc N])) = Some ` {0..<N}"
    using mod_cycle_set[OF assms, of t] by (simp only: set_map)
  have l: "last (map Some (map (\<lambda>i. (t + i) mod N) [1..<Suc N])) = Some (t mod N)"
    using mod_cycle_last[OF assms, of t] last_map[OF ne, of Some] by simp
  show ?thesis unfolding m using d s l by blast
qed

text \<open>
  From any pointer \<open>t\<close>, also one left beyond \<open>N\<close> by a shrunken membership: \<open>N\<close> calls in
  turn all succeed, the pointer after the \<open>i\<close>-th call is \<open>(t + i) mod N\<close> with the remainder
  taken against the players stored at that call, the \<open>N\<close> values are every value of
  \<open>[0, N)\<close> once, and the last is \<open>t mod N\<close>.
\<close>

lemma rotation_from_pointer:
  assumes "rl cd = Some ml" and "players ml \<noteq> []" and "inTurn_local cd calls rl"
      and "length calls = length (players ml)"
      and "rf cd' = Some mf" and "players mf \<noteq> []" and "turnIndex mf = Some t"
      and "cd' \<noteq> []" and "inTurn_fb cd' calls' rf" and "length calls' = length (players mf)"
  shows "map fst (hintRun_local calls rl) = replicate (length (players ml)) None \<and>
         turnsOf_local cd (hintRun_local calls rl) =
           map (\<lambda>i. Some ((turnIndex ml + i) mod length (players ml)))
             [1..<Suc (length (players ml))] \<and>
         distinct (turnsOf_local cd (hintRun_local calls rl)) \<and>
         set (turnsOf_local cd (hintRun_local calls rl)) = Some ` {0..<length (players ml)} \<and>
         last (turnsOf_local cd (hintRun_local calls rl)) =
           Some (turnIndex ml mod length (players ml)) \<and>
         map fst (hintRun_fb calls' rf) = replicate (length (players mf)) None \<and>
         turnsOf_fb cd' (hintRun_fb calls' rf) =
           map (\<lambda>i. Some ((t + i) mod length (players mf))) [1..<Suc (length (players mf))] \<and>
         distinct (turnsOf_fb cd' (hintRun_fb calls' rf)) \<and>
         set (turnsOf_fb cd' (hintRun_fb calls' rf)) = Some ` {0..<length (players mf)} \<and>
         last (turnsOf_fb cd' (hintRun_fb calls' rf)) = Some (t mod length (players mf))"
proof -
  have nl: "0 < length (players ml)" and nf: "0 < length (players mf)"
    using assms(2,6) by simp_all
  have l: "map fst (hintRun_local calls rl) = replicate (length (players ml)) None \<and>
         turnsOf_local cd (hintRun_local calls rl) =
           map (\<lambda>i. Some ((turnIndex ml + i) mod length (players ml)))
             [1..<Suc (length (players ml))]"
    using hintRun_local_turns[OF assms(1,2,3)] by (simp only: assms(4))
  have f: "map fst (hintRun_fb calls' rf) = replicate (length (players mf)) None \<and>
         turnsOf_fb cd' (hintRun_fb calls' rf) =
           map (\<lambda>i. Some ((t + i) mod length (players mf))) [1..<Suc (length (players mf))]"
    using hintRun_fb_turns[OF assms(5,6,7,8,9)] by (simp only: assms(10))
  show ?thesis
    using l f cycle_facts[OF nl, of "turnIndex ml"] cycle_facts[OF nf, of t]
    by (simp only:)
qed

text \<open>
  Claim C3. In a stored room with \<open>N \<ge> 1\<close> members whose turn pointer is the 0 that
  \<^verbatim>\<open>startGame\<close> sets, \<open>N\<close> consecutive \<^verbatim>\<open>sendHint\<close> calls, each made by the member whose turn it
  is at that moment, all succeed; the pointer after the \<open>i\<close>-th call is \<open>i mod N\<close>, the
  remainder being taken against the length of the players stored at that call (see
  \<open>rotation_from_pointer\<close> for a pointer left beyond \<open>N\<close>); these \<open>N\<close> values are every
  value of \<open>[0, N)\<close> exactly once; and the last of them is 0 again. The Firebase calls are
  made by configured clients in a room with a non-empty code.
\<close>

theorem sendHint_rotation:
  assumes "rl cd = Some ml" and "players ml \<noteq> []" and "turnIndex ml = 0"
      and "inTurn_local cd calls rl" and "length calls = length (players ml)"
      and "rf cd' = Some mf" and "players mf \<noteq> []" and "turnIndex mf = Some 0"
      and "cd' \<noteq> []" and "inTurn_fb cd' calls' rf" and "length calls' = length (players mf)"
  shows "map fst (hintRun_local calls rl) = replicate (length (players ml)) None \<and>
         turnsOf_local cd (hintRun_local calls rl) =
           map (\<lambda>i. Some (i mod length (players ml))) [1..<Suc (length (players ml))] \<and>
         distinct (turnsOf_local cd (hintRun_local calls rl)) \<and>
         set (turnsOf_local cd (hintRun_local calls rl)) = Some ` {0..<length (players ml)} \<and>
         last (turnsOf_local cd (hintRun_local calls rl)) = Some 0 \<and>
         map fst (hintRun_fb calls' rf) = replicate (length (players mf)) None \<and>
         turnsOf_fb cd' (hintRun_fb calls' rf) =
           map (\<lambda>i. Some (i mod length (players mf))) [1..<Suc (length (players mf))] \<and>
         distinct (turnsOf_fb cd' (hintRun_fb calls' rf)) \<and>
         set (turnsOf_fb cd' (hintRun_fb calls' rf)) = Some ` {0..<length (players mf)} \<and>
         last (turnsOf_fb cd' (hintRun_fb calls' rf)) = Some 0"
proof -
  note from_t = rotation_from_pointer[OF assms(1,2,4,5,6,7,8,9,10,11)]
  show ?thesis using from_t unfolding assms(3) add_0 mod_0 .
qed

theorem sendHint_rotation_witness:
  "map fst (hintRun_local [(demoClient_local ''al'', 5, js ''hint''), (demoClient_local ''bo'', 6, js ''hint'')]
       [''ABC234'' \<mapsto> demoRoom_local (Some ''al'') 0 [demoPlayer ''al'' 1, demoPlayer ''bo'' 2]])
     = [None, None] \<and>
   turnsOf_local ''ABC234''
     (hintRun_local [(demoClient_local ''al'', 5, js ''hint''), (demoClient_local ''bo'', 6, js ''hint'')]
       [''ABC234'' \<mapsto> demoRoom_local (Some ''al'') 0 [demoPlayer ''al'' 1, demoPlayer ''bo'' 2]])
     = [Some 1, Some 0] \<and>
   map fst (hintRun_fb [(demoClient_fb ''al'', 5, 5, js ''hint''), (demoClient_fb ''bo'', 6, 6, js ''hint'')]
       [''ABC234'' \<mapsto> demoRoom_fb (Some ''al'') 0 [demoPlayer ''al'' 1, demoPlayer ''bo'' 2]])
     = [None, None] \<and>
   turnsOf_fb ''ABC234''
     (hintRun_fb [(demoClient_fb ''al'', 5, 5, js ''hint''), (demoClient_fb ''bo'', 6, 6, js ''hint'')]
       [''ABC234'' \<mapsto> demoRoom_fb (Some ''al'') 0 [demoPlayer ''al'' 1, demoPlayer ''bo'' 2]])
     = [Some 1, Some 0]"
  using sendHint_rotation [of
      "[''ABC234'' \<mapsto> demoRoom_local (Some ''al'') 0 [demoPlayer ''al'' 1, demoPlayer ''bo'' 2]]"
      "''ABC234''" "demoRoom_local (Some ''al'') 0 [demoPlayer ''al'' 1, demoPlayer ''bo'' 2]"
      "[(demoClient_local ''al'', 5, js ''hint''), (demoClient_local ''bo'', 6, js ''hint'')]"
      "[''ABC234'' \<mapsto> demoRoom_fb (Some ''al'') 0 [demoPlayer ''al'' 1, demoPlayer ''bo'' 2]]"
      "''ABC234''" "demoRoom_fb (Some ''al'') 0 [demoPlayer ''al'' 1, demoPlayer ''bo'' 2]"
      "[(demoClient_fb ''al'', 5, 5, js ''hint''), (demoClient_fb ''bo'', 6, 6, js ''hint'')]"]
  by (simp add: demo_defs run_defs Let_def)

subsection \<open>The checks of a hint\<close>

text \<open>
  Claim C4, as amended. \<^verbatim>\<open>sendHint\<close> does not look at the text: the two places that call
  it skip a value that is blank after trimming, silently. On a stored room with members
  (Firebase: configured client, non-empty code, stored \<^verbatim>\<open>turnIndex\<close>) it raises the
  not-your-turn alert and leaves the store as it is when \<^verbatim>\<open>meId\<close> differs from the id of
  \<^verbatim>\<open>players[turnIndex mod memberCount]\<close>, the players being taken in their stored order
  (the array locally, the keys as \<^verbatim>\<open>Object.keys\<close> lists them in Firebase); otherwise it
  adds the chat entry with the trimmed text and advances the turn.
\<close>

theorem sendHint_turn_check:
  assumes "rl (currentRoomCode cl) = Some ml" and "players ml \<noteq> []"
      and "configOk cf" and "currentRoomCode cf \<noteq> []"
      and "rf (currentRoomCode cf) = Some mf" and "players mf \<noteq> []" and "turnIndex mf = Some t"
  shows "sendHint_local cl now hint rl =
           (if pid (players ml ! (turnIndex ml mod length (players ml))) \<noteq> meId cl
            then (Some NotYourTurn, rl)
            else (None, rl(currentRoomCode cl \<mapsto> ml\<lparr>
                    chat := chat ml @ [PlayerMsg (meId cl) (trim (name cl)) (trim hint) now],
                    turnIndex := (turnIndex ml + 1) mod length (players ml)\<rparr>))) \<and>
         sendHint_fb cf nowKey nowTs hint rf =
           (if pid (players mf ! (t mod length (players mf))) \<noteq> meId cf
            then (Some NotYourTurn, rf)
            else (None, rf(currentRoomCode cf \<mapsto> mf\<lparr>
                    chat := (chat mf)(nowKey \<mapsto>
                              PlayerMsg (meId cf) (trim (name cf)) (trim hint) nowTs),
                    turnIndex := Some ((t + 1) mod length (players mf))\<rparr>))) \<and>
         (trim v = [] \<longrightarrow>
            submitHint_local cl now v rl = (None, rl) \<and>
            submitHint_fb cf nowKey nowTs v rf = (None, rf))"
proof -
  have l: "sendHint_local cl now hint rl =
           (if pid (players ml ! (turnIndex ml mod length (players ml))) \<noteq> meId cl
            then (Some NotYourTurn, rl)
            else (None, rl(currentRoomCode cl \<mapsto> ml\<lparr>
                    chat := chat ml @ [PlayerMsg (meId cl) (trim (name cl)) (trim hint) now],
                    turnIndex := (turnIndex ml + 1) mod length (players ml)\<rparr>)))"
    using assms(1,2) by (simp add: sendHint_local_def atTurn_def)
  have "t mod length (players mf) < length (players mf)" using assms(6) by simp
  then have n: "map pid (players mf) ! (t mod length (players mf)) =
      pid (players mf ! (t mod length (players mf)))"
    by (rule nth_map)
  have f: "sendHint_fb cf nowKey nowTs hint rf =
           (if pid (players mf ! (t mod length (players mf))) \<noteq> meId cf
            then (Some NotYourTurn, rf)
            else (None, rf(currentRoomCode cf \<mapsto> mf\<lparr>
                    chat := (chat mf)(nowKey \<mapsto>
                              PlayerMsg (meId cf) (trim (name cf)) (trim hint) nowTs),
                    turnIndex := Some ((t + 1) mod length (players mf))\<rparr>)))"
    using assms(3-7) n by (simp add: sendHint_fb_def Let_def)
  have s: "trim v = [] \<longrightarrow>
            submitHint_local cl now v rl = (None, rl) \<and>
            submitHint_fb cf nowKey nowTs v rf = (None, rf)"
    by (simp add: submitHint_local_def submitHint_fb_def)
  show ?thesis using l f s by (intro conjI)
qed

theorem sendHint_turn_check_witness:
  "sendHint_local (demoClient_local ''bo'') 5 (js ''hint'')
       [''ABC234'' \<mapsto> demoRoom_local (Some ''al'') 0 [demoPlayer ''al'' 1, demoPlayer ''bo'' 2]]
     = (Some NotYourTurn,
        [''ABC234'' \<mapsto> demoRoom_local (Some ''al'') 0 [demoPlayer ''al'' 1, demoPlayer ''bo'' 2]]) \<and>
   sendHint_fb (demoClient_fb ''al'') 5 6 (js ''hint'')
       [''ABC234'' \<mapsto> demoRoom_fb (Some ''al'') 0 [demoPlayer ''al'' 1, demoPlayer ''bo'' 2]]
     = (None, [''ABC234'' \<mapsto> (demoRoom_fb (Some ''al'') 1 [demoPlayer ''al'' 1, demoPlayer ''bo'' 2])
          \<lparr>chat := [5 \<mapsto> PlayerMsg ''al'' (js ''al'') (js ''hint'') 6]\<rparr>]) \<and>
   submitHint_local (demoClient_local ''al'') 5 (js ''  '')
       [''ABC234'' \<mapsto> demoRoom_local (Some ''al'') 0 [demoPlayer ''al'' 1, demoPlayer ''bo'' 2]]
     = (None, [''ABC234'' \<mapsto> demoRoom_local (Some ''al'') 0 [demoPlayer ''al'' 1, demoPlayer ''bo'' 2]])"
  using sendHint_turn_check [of
      "[''ABC234'' \<mapsto> demoRoom_local (Some ''al'') 0 [demoPlayer ''al'' 1, demoPlayer ''bo'' 2]]"
      "demoClient_local ''bo''"
      "demoRoom_local (Some ''al'') 0 [demoPlayer ''al'' 1, demoPlayer ''bo'' 2]"
      "demoClient_fb ''al''"
      "[''ABC234'' \<mapsto> demoRoom_fb (Some ''al'') 0 [demoPlayer ''al'' 1, demoPlayer ''bo'' 2]]"
      "demoRoom_fb (Some ''al'') 0 [demoPlayer ''al'' 1, demoPlayer ''bo'' 2]" 0
      5 "js ''hint''" 5 6 "js ''  ''"]
  by (simp add: demo_defs submitHint_local_def)

text \<open>
  The claim as stated fails twice. A text of two spaces, sent by the player whose turn it
  is, is accepted: the entry with the empty text is added and the turn advances. And in a
  Firebase room whose keys list \<open>al\<close> (joined at 5) before \<open>bo\<close> (joined at 3), the member
  at position 0 of the specification's order is \<open>bo\<close>, yet \<open>bo\<close> is refused and \<open>al\<close> is
  accepted.
\<close>

theorem sendHint_turn_check_counterexample:
  "sendHint_local (demoClient_local ''al'') 5 (js ''  '')
       [''ABC234'' \<mapsto> demoRoom_local (Some ''al'') 0 [demoPlayer ''al'' 1, demoPlayer ''bo'' 2]]
     = (None, [''ABC234'' \<mapsto> (demoRoom_local (Some ''al'') 1 [demoPlayer ''al'' 1, demoPlayer ''bo'' 2])
          \<lparr>chat := [PlayerMsg ''al'' (js ''al'') [] 5]\<rparr>]) \<and>
   atTurn (orderedMembers_spec [demoPlayer ''al'' 5, demoPlayer ''bo'' 3]) 0
     = Some (demoPlayer ''bo'' 3) \<and>
   sendHint_fb (demoClient_fb ''bo'') 7 7 (js ''hint'')
       [''ABC234'' \<mapsto> demoRoom_fb (Some ''bo'') 0 [demoPlayer ''al'' 5, demoPlayer ''bo'' 3]]
     = (Some NotYourTurn,
        [''ABC234'' \<mapsto> demoRoom_fb (Some ''bo'') 0 [demoPlayer ''al'' 5, demoPlayer ''bo'' 3]]) \<and>
   sendHint_fb (demoClient_fb ''al'') 7 7 (js ''hint'')
       [''ABC234'' \<mapsto> demoRoom_fb (Some ''bo'') 0 [demoPlayer ''al'' 5, demoPlayer ''bo'' 3]]
     = (None, [''ABC234'' \<mapsto> (demoRoom_fb (Some ''bo'') 1 [demoPlayer ''al'' 5, demoPlayer ''bo'' 3])
          \<lparr>chat := [7 \<mapsto> PlayerMsg ''al'' (js ''al'') (js ''hint'') 7]\<rparr>])"
  by (simp add: demo_defs run_defs Let_def orderedMembers_spec_def)

subsection \<open>Who may start a game and kick\<close>

text \<open>
  Claim C5, as amended. The only test of the requester in the two operations is the one
  of the Firebase \<^verbatim>\<open>kickPlayer\<close>: on an existing room, with \<^verbatim>\<open>meId\<close> other than the
  \<^verbatim>\<open>leaderId\<close> of the room that it read before its transaction, it raises the
  only-leader alert and leaves the store unchanged. \<^verbatim>\<open>startGame\<close> of either component and
  the local \<^verbatim>\<open>kickPlayer\<close> do the same for every requester (the Start and Kick buttons
  are rendered for the leader only, see \<open>startOffered_local\<close> and \<open>kickOffered_local\<close>):
  their result does not depend on \<^verbatim>\<open>meId\<close>.
\<close>

theorem leader_check_only_in_kickPlayer_fb:
  assumes "currentRoomCode cf \<noteq> []" and "configOk cf"
      and "rf (currentRoomCode cf) = Some mf" and "leaderId mf \<noteq> Some (meId cf)"
      and "configOk cf'"
      and "currentRoomCode cl' = currentRoomCode cl"
  shows "kickPlayer_fb cf target rf = (Some OnlyLeaderKicks, rf) \<and>
         startGame_local cl' shuffle now cd rl = startGame_local cl shuffle now cd rl \<and>
         startGame_fb cf' shuffle' nowKey nowTs cd' rf = startGame_fb cf shuffle' nowKey nowTs cd' rf \<and>
         kickPlayer_local cl' target rl = kickPlayer_local cl target rl"
  using assms
  by (simp add: kickPlayer_fb_def startGame_local_def startGame_fb_def kickPlayer_local_def
      split: option.split)

theorem leader_check_only_in_kickPlayer_fb_witness:
  "kickPlayer_fb (demoClient_fb ''bo'') ''al''
       [''ABC234'' \<mapsto> demoRoom_fb (Some ''al'') 0 [demoPlayer ''al'' 1, demoPlayer ''bo'' 2]]
     = (Some OnlyLeaderKicks,
        [''ABC234'' \<mapsto> demoRoom_fb (Some ''al'') 0 [demoPlayer ''al'' 1, demoPlayer ''bo'' 2]]) \<and>
   startGame_local (demoClient_local ''bo'') rev 5 ''ABC234''
       [''ABC234'' \<mapsto> demoRoom_local (Some ''al'') 0 [demoPlayer ''al'' 1, demoPlayer ''bo'' 2]]
     = startGame_local (demoClient_local ''al'') rev 5 ''ABC234''
       [''ABC234'' \<mapsto> demoRoom_local (Some ''al'') 0 [demoPlayer ''al'' 1, demoPlayer ''bo'' 2]]"
  using leader_check_only_in_kickPlayer_fb [of "demoClient_fb ''bo''"
      "[''ABC234'' \<mapsto> demoRoom_fb (Some ''al'') 0 [demoPlayer ''al'' 1, demoPlayer ''bo'' 2]]"
      "demoRoom_fb (Some ''al'') 0 [demoPlayer ''al'' 1, demoPlayer ''bo'' 2]"
      "demoClient_fb ''al''" "demoClient_local ''bo''" "demoClient_local ''al''" "''al''"
      rev 5 "''ABC234''"
      "[''ABC234'' \<mapsto> demoRoom_local (Some ''al'') 0 [demoPlayer ''al'' 1, demoPlayer ''bo'' 2]]"]
  by (simp add: demo_defs)

text \<open>
  The claim as stated fails: in a room led by \<open>al\<close>, the member \<open>bo\<close> starts the game in
  either component with no alert, and the local \<^verbatim>\<open>kickPlayer\<close> of \<open>bo\<close> removes \<open>al\<close>.
\<close>

theorem leader_check_counterexample:
  "leaderId (demoRoom_local (Some ''al'') 0 [demoPlayer ''al'' 1, demoPlayer ''bo'' 2]) \<noteq>
     Some (meId (demoClient_local ''bo'')) \<and>
   startGame_local (demoClient_local ''bo'') rev 5 ''ABC234''
       [''ABC234'' \<mapsto> demoRoom_local (Some ''al'') 0 [demoPlayer ''al'' 1, demoPlayer ''bo'' 2]]
     = [''ABC234'' \<mapsto> (demoRoom_local (Some ''al'') 0
           [demoPlayer ''al'' 1, (demoPlayer ''bo'' 2)\<lparr>role := Imposter\<rparr>])
           \<lparr>started := True, chat := [SystemMsg ''Game started. 1 imposters assigned.'' 5]\<rparr>] \<and>
   startGame_fb (demoClient_fb ''bo'') rev 5 6 ''ABC234''
       [''ABC234'' \<mapsto> demoRoom_fb (Some ''al'') 0 [demoPlayer ''al'' 1, demoPlayer ''bo'' 2]]
     = (None, [''ABC234'' \<mapsto> (demoRoom_fb (Some ''al'') 0
           [demoPlayer ''al'' 1, (demoPlayer ''bo'' 2)\<lparr>role := Imposter\<rparr>])
           \<lparr>started := True, chat := [5 \<mapsto> SystemMsg ''Game started. 1 imposters assigned.'' 6]\<rparr>]) \<and>
   kickPlayer_local (demoClient_local ''bo'') ''al''
       [''ABC234'' \<mapsto> demoRoom_local (Some ''al'') 0 [demoPlayer ''al'' 1, demoPlayer ''bo'' 2]]
     = [''ABC234'' \<mapsto> demoRoom_local (Some ''bo'') 0 [demoPlayer ''bo'' 2]]"
  by (simp add: demo_defs startGame_local_def startGame_fb_def numImposters_def slice0_def
      assignRoles_def kickPlayer_local_def mathMin_def toNumber_def sliceNum_def orOne_def)

subsection \<open>Leaving a room\<close>

lemma filter_nil_leader:
  assumes "filter (\<lambda>p. pid p \<noteq> me) ps = []" and "l \<in> pid ` set ps"
  shows "l = me"
  using assms by (auto simp: filter_empty_conv)

lemma filter_absent:
  assumes "me \<notin> pid ` set ps"
  shows "filter (\<lambda>p. pid p \<noteq> me) ps = ps"
  using assms by (auto intro: filter_True)

lemma sorted_filter_hd:
  assumes "sorted_wrt (\<lambda>p q. joinedAt p \<le> joinedAt q) ps" and "q \<in> set (filter P ps)"
  shows "joinedAt (hd (filter P ps)) \<le> joinedAt (q::player)"
proof -
  have s: "sorted_wrt (\<lambda>p q. joinedAt p \<le> joinedAt q) (filter P ps)"
    using assms(1) by (rule sorted_wrt_filter)
  obtain x xs where f: "filter P ps = x # xs"
    using assms(2) by (cases "filter P ps") auto
  show ?thesis using s assms(2) unfolding f by auto
qed

lemma leaveRoom_local_result:
  assumes "currentRoomCode c \<noteq> []" and "rs (currentRoomCode c) = Some m"
      and "leaderId m = Some l" and "l \<in> pid ` set (players m)"
  shows "leaveRoom_local c rs =
     (c\<lparr>currentRoomCode := []\<rparr>,
      case filter (\<lambda>p. pid p \<noteq> meId c) (players m) of
        [] \<Rightarrow> rs(currentRoomCode c := None)
      | p # _ \<Rightarrow>
          if l = meId c
          then rs(currentRoomCode c \<mapsto> m\<lparr>players := filter (\<lambda>p. pid p \<noteq> meId c) (players m),
                    leaderId := Some (pid p)\<rparr>)
          else rs(currentRoomCode c \<mapsto> m\<lparr>players := filter (\<lambda>p. pid p \<noteq> meId c) (players m)\<rparr>))"
proof (cases "filter (\<lambda>p. pid p \<noteq> meId c) (players m)")
  case Nil
  then have "l = meId c" using assms(4) by (rule filter_nil_leader)
  then show ?thesis using assms(1-3) Nil by (simp add: leaveRoom_local_def)
next
  case (Cons p ps)
  then show ?thesis using assms(1-3) by (simp add: leaveRoom_local_def)
qed

lemma leaveRoom_fb_result:
  assumes "currentRoomCode c \<noteq> []" and "configOk c" and "rs (currentRoomCode c) = Some m"
      and "leaderId m = Some l" and "l \<in> pid ` set (players m)"
  shows "leaveRoom_fb c rs =
     (c\<lparr>currentRoomCode := []\<rparr>,
      case filter (\<lambda>p. pid p \<noteq> meId c) (players m) of
        [] \<Rightarrow> rs(currentRoomCode c := None)
      | p # _ \<Rightarrow>
          if l = meId c
          then rs(currentRoomCode c \<mapsto> m\<lparr>players := filter (\<lambda>p. pid p \<noteq> meId c) (players m),
                    leaderId := Some (pid p)\<rparr>)
          else rs(currentRoomCode c \<mapsto> m\<lparr>players := filter (\<lambda>p. pid p \<noteq> meId c) (players m)\<rparr>))"
proof (cases "filter (\<lambda>p. pid p \<noteq> meId c) (players m)")
  case Nil
  then have "l = meId c" using assms(5) by (rule filter_nil_leader)
  then show ?thesis using assms(1-4) Nil by (simp add: leaveRoom_fb_def leaveRemove_fb_def leaveSettle_fb_def runTransaction_players_def
      removeTxn_def Let_def)
next
  case (Cons p ps)
  then show ?thesis using assms(1-4)
    by (auto simp: leaveRoom_fb_def leaveRemove_fb_def leaveSettle_fb_def runTransaction_players_def
      removeTxn_def Let_def fun_upd_idem)
qed

lemma leaveRoom_local_absent:
  assumes "rs (currentRoomCode c) = Some m" and "leaderId m = Some l"
      and "l \<in> pid ` set (players m)" and "meId c \<notin> pid ` set (players m)"
  shows "snd (leaveRoom_local c rs) = rs"
proof -
  have "l \<noteq> meId c" using assms(3,4) by blast
  moreover have "m\<lparr>players := players m\<rparr> = m" by simp
  ultimately show ?thesis
    using assms(1,2) filter_absent[OF assms(4)]
    by (simp add: leaveRoom_local_def fun_upd_idem)
qed

lemma leaveRoom_fb_absent:
  assumes "rs (currentRoomCode c) = Some m" and "leaderId m = Some l"
      and "l \<in> pid ` set (players m)" and "meId c \<notin> pid ` set (players m)"
  shows "snd (leaveRoom_fb c rs) = rs"
proof -
  have "l \<noteq> meId c" using assms(3,4) by blast
  moreover have "m\<lparr>players := players m\<rparr> = m" by simp
  ultimately show ?thesis
    using assms(1,2) filter_absent[OF assms(4)]
    by (simp add: leaveRoom_fb_def leaveRemove_fb_def leaveSettle_fb_def runTransaction_players_def
      removeTxn_def Let_def fun_upd_idem)
qed

text \<open>
  Claim C6, as amended. In a stored room whose \<^verbatim>\<open>leaderId\<close> names a member, \<^verbatim>\<open>leaveRoom\<close>
  removes the caller from the players; if no player remains the room is deleted; if the
  caller was the leader and players remain, the new leader is the first remaining player
  in the stored order (\<^verbatim>\<open>players[0]\<close> of the array locally, the first key that
  \<^verbatim>\<open>Object.keys\<close> lists in Firebase); otherwise the leader stays. When the room is absent,
  or the caller is not among its players, the store is unchanged and the call ends
  normally. In the local component, if the array is in ascending \<^verbatim>\<open>joinedAt\<close> order (the
  order in which \<^verbatim>\<open>createRoom\<close> and \<^verbatim>\<open>joinRoom\<close> build it under a clock that does not go
  back), the first remaining player has the least \<^verbatim>\<open>joinedAt\<close> of those remaining. The
  caller is in a room (\<^verbatim>\<open>currentRoomCode\<close> not empty), the Firebase client configured.
\<close>

theorem leaveRoom_promotes_first:
  assumes "currentRoomCode cl \<noteq> []" and "rl (currentRoomCode cl) = Some ml"
      and "leaderId ml = Some l" and "l \<in> pid ` set (players ml)"
      and "rl0 (currentRoomCode cl) = None"
      and "currentRoomCode cf \<noteq> []" and "configOk cf" and "rf (currentRoomCode cf) = Some mf"
      and "leaderId mf = Some l'" and "l' \<in> pid ` set (players mf)"
      and "rf0 (currentRoomCode cf) = None"
  shows "leaveRoom_local cl rl =
           (cl\<lparr>currentRoomCode := []\<rparr>,
            case filter (\<lambda>p. pid p \<noteq> meId cl) (players ml) of
              [] \<Rightarrow> rl(currentRoomCode cl := None)
            | p # _ \<Rightarrow>
                if l = meId cl
                then rl(currentRoomCode cl \<mapsto>
                       ml\<lparr>players := filter (\<lambda>p. pid p \<noteq> meId cl) (players ml),
                          leaderId := Some (pid p)\<rparr>)
                else rl(currentRoomCode cl \<mapsto>
                       ml\<lparr>players := filter (\<lambda>p. pid p \<noteq> meId cl) (players ml)\<rparr>)) \<and>
         leaveRoom_fb cf rf =
           (cf\<lparr>currentRoomCode := []\<rparr>,
            case filter (\<lambda>p. pid p \<noteq> meId cf) (players mf) of
              [] \<Rightarrow> rf(currentRoomCode cf := None)
            | p # _ \<Rightarrow>
                if l' = meId cf
                then rf(currentRoomCode cf \<mapsto>
                       mf\<lparr>players := filter (\<lambda>p. pid p \<noteq> meId cf) (players mf),
                          leaderId := Some (pid p)\<rparr>)
                else rf(currentRoomCode cf \<mapsto>
                       mf\<lparr>players := filter (\<lambda>p. pid p \<noteq> meId cf) (players mf)\<rparr>)) \<and>
         leaveRoom_local cl rl0 = (cl\<lparr>currentRoomCode := []\<rparr>, rl0) \<and>
         leaveRoom_fb cf rf0 = (cf\<lparr>currentRoomCode := []\<rparr>, rf0) \<and>
         (meId cl \<notin> pid ` set (players ml) \<longrightarrow> snd (leaveRoom_local cl rl) = rl) \<and>
         (meId cf \<notin> pid ` set (players mf) \<longrightarrow> snd (leaveRoom_fb cf rf) = rf) \<and>
         (sorted_wrt (\<lambda>p q. joinedAt p \<le> joinedAt q) (players ml) \<longrightarrow>
            (\<forall>q \<in> set (filter (\<lambda>p. pid p \<noteq> meId cl) (players ml)).
               joinedAt (hd (filter (\<lambda>p. pid p \<noteq> meId cl) (players ml))) \<le> joinedAt q))"
proof (intro conjI impI ballI)
  show "leaveRoom_local cl rl0 = (cl\<lparr>currentRoomCode := []\<rparr>, rl0)"
    using assms(1,5) by (simp add: leaveRoom_local_def)
  show "leaveRoom_fb cf rf0 = (cf\<lparr>currentRoomCode := []\<rparr>, rf0)"
    using assms(6,7,11) by (simp add: leaveRoom_fb_def leaveRemove_fb_def leaveSettle_fb_def runTransaction_players_def
      removeTxn_def Let_def)
  show "snd (leaveRoom_local cl rl) = rl" if "meId cl \<notin> pid ` set (players ml)"
    using leaveRoom_local_absent[of rl cl ml l, OF assms(2,3,4) that] .
  show "snd (leaveRoom_fb cf rf) = rf" if "meId cf \<notin> pid ` set (players mf)"
    using leaveRoom_fb_absent[of rf cf mf l', OF assms(8,9,10) that] .
  show "joinedAt (hd (filter (\<lambda>p. pid p \<noteq> meId cl) (players ml))) \<le> joinedAt q"
    if "sorted_wrt (\<lambda>p q. joinedAt p \<le> joinedAt q) (players ml)"
      and "q \<in> set (filter (\<lambda>p. pid p \<noteq> meId cl) (players ml))" for q
    using sorted_filter_hd[OF that] .
qed (rule leaveRoom_local_result[of cl rl ml l, OF assms(1-4)],
    rule leaveRoom_fb_result[of cf rf mf l', OF assms(6-10)])

theorem leaveRoom_promotes_first_witness:
  "leaveRoom_local (demoClient_local ''al'')
       [''ABC234'' \<mapsto> demoRoom_local (Some ''al'') 0
          [demoPlayer ''al'' 1, demoPlayer ''bo'' 2, demoPlayer ''cy'' 3]]
     = ((demoClient_local ''al'')\<lparr>currentRoomCode := []\<rparr>,
        [''ABC234'' \<mapsto> demoRoom_local (Some ''bo'') 0 [demoPlayer ''bo'' 2, demoPlayer ''cy'' 3]]) \<and>
   leaveRoom_fb (demoClient_fb ''al'')
       [''ABC234'' \<mapsto> demoRoom_fb (Some ''al'') 0 [demoPlayer ''al'' 1]]
     = ((demoClient_fb ''al'')\<lparr>currentRoomCode := []\<rparr>, Map.empty) \<and>
   leaveRoom_local (demoClient_local ''al'') Map.empty
     = ((demoClient_local ''al'')\<lparr>currentRoomCode := []\<rparr>, Map.empty)"
  using leaveRoom_promotes_first [of "demoClient_local ''al''"
      "[''ABC234'' \<mapsto> demoRoom_local (Some ''al'') 0
          [demoPlayer ''al'' 1, demoPlayer ''bo'' 2, demoPlayer ''cy'' 3]]"
      "demoRoom_local (Some ''al'') 0 [demoPlayer ''al'' 1, demoPlayer ''bo'' 2, demoPlayer ''cy'' 3]"
      "''al''" Map.empty "demoClient_fb ''al''"
      "[''ABC234'' \<mapsto> demoRoom_fb (Some ''al'') 0 [demoPlayer ''al'' 1]]"
      "demoRoom_fb (Some ''al'') 0 [demoPlayer ''al'' 1]" "''al''" Map.empty]
  by (simp add: demo_defs)

text \<open>
  The claim as stated fails in the Firebase component: the leader \<open>zed\<close> leaves a room
  whose keys list \<open>al\<close> (joined at 9) before \<open>bo\<close> (joined at 1); the new leader is \<open>al\<close>,
  while the earliest-joined remaining member, the first of the specification's order, is
  \<open>bo\<close>.
\<close>

theorem leaveRoom_promotes_first_counterexample:
  "leaveRoom_fb (demoClient_fb ''zed'')
       [''ABC234'' \<mapsto> demoRoom_fb (Some ''zed'') 0
          [demoPlayer ''al'' 9, demoPlayer ''bo'' 1, demoPlayer ''zed'' 0]]
     = ((demoClient_fb ''zed'')\<lparr>currentRoomCode := []\<rparr>,
        [''ABC234'' \<mapsto> demoRoom_fb (Some ''al'') 0 [demoPlayer ''al'' 9, demoPlayer ''bo'' 1]]) \<and>
   orderedMembers_spec [demoPlayer ''al'' 9, demoPlayer ''bo'' 1]
     = [demoPlayer ''bo'' 1, demoPlayer ''al'' 9]"
  by (simp add: demo_defs leaveRoom_fb_def leaveRemove_fb_def leaveSettle_fb_def runTransaction_players_def
      removeTxn_def Let_def orderedMembers_spec_def)

subsection \<open>The stored imposter count\<close>

lemma countOk_upd:
  assumes "countOk rs" and "impostersCount m = Num i" and "1 \<le> i"
  shows "countOk (rs(cd \<mapsto> m))"
  using assms by (simp add: countOk_def)

lemma countOk_del:
  assumes "countOk rs"
  shows "countOk (rs(cd := None))"
  using assms by (simp add: countOk_def)

lemma countOk_get:
  assumes "countOk rs" and "rs cd = Some m"
  shows "\<exists>i. impostersCount m = Num i \<and> 1 \<le> i"
  using assms by (simp add: countOk_def)

lemma countOk_same:
  assumes "countOk rs" and "rs cd = Some m" and "impostersCount m' = impostersCount m"
  shows "countOk (rs(cd \<mapsto> m'))"
proof -
  obtain i where "impostersCount m = Num i" and "1 \<le> i"
    using countOk_get[OF assms(1,2)] by blast
  then show ?thesis using assms(1,3) by (intro countOk_upd[of rs m' i]) simp_all
qed

lemma countOk_empty: "countOk Map.empty"
  by (simp add: countOk_def)

text \<open>
  What \<^verbatim>\<open>Math.max(1, Math.min(count, n))\<close> is for a count that is a number, for \<^verbatim>\<open>null\<close>
  and for \<^verbatim>\<open>NaN\<close>.
\<close>

lemma clamp_count:
  "mathMax 1 (mathMin (Num k) n) = Num (max 1 (min k n))"
  "mathMax 1 (mathMin Null n) = Num (max 1 (min 0 n))"
  "mathMax 1 (mathMin NaN n) = NaN"
  by (simp_all add: mathMax_def mathMin_def toNumber_def)

lemma countOk_setImposterCount_local:
  assumes "countOk rs" and "cnt \<noteq> NaN"
  shows "countOk (setImposterCount_local cd cnt rs)"
proof (cases "rs cd")
  case None
  then show ?thesis using assms(1) by (simp add: setImposterCount_local_def)
next
  case (Some m)
  obtain k where k: "mathMax 1 (mathMin cnt (int (length (players m)))) = Num k" and "1 \<le> k"
    using assms(2) by (cases cnt) (simp_all add: clamp_count)
  then have "countOk (rs(cd \<mapsto> m\<lparr>impostersCount := Num k\<rparr>))"
    using assms(1) by (intro countOk_upd[of rs _ k]) simp_all
  then show ?thesis using Some k by (simp add: setImposterCount_local_def)
qed

lemma countOk_exec_local:
  assumes "countOk rs" and "exec_local c a rs = Some rs'" and "\<forall>cd. a \<noteq> SetImposterCount cd NaN"
  shows "countOk rs'"
proof (cases a)
  case (CreateRoom nowJoined nowCreated draw draws)
  then show ?thesis using assms(1,2)
    by (auto simp: createRoom_local_def split: if_splits option.splits
        intro!: countOk_upd[where i = 1])
next
  case (JoinRoom now cd)
  then show ?thesis using assms(1,2)
    by (auto simp: joinRoom_local_def split: if_splits option.splits intro!: countOk_same)
next
  case LeaveRoom
  then show ?thesis using assms(1,2)
    by (auto simp: leaveRoom_local_def Let_def countOk_del
        split: if_splits option.splits list.splits intro!: countOk_same)
next
  case (SetImposterCount cd cnt)
  then have "cnt \<noteq> NaN" using assms(3) by auto
  then show ?thesis using assms(1,2) SetImposterCount countOk_setImposterCount_local by auto
next
  case (StartGame shuffle now cd)
  then show ?thesis using assms(1,2)
    by (auto simp: startGame_local_def Let_def split: option.splits intro!: countOk_same)
next
  case (SendHint now hint)
  then show ?thesis using assms(1,2)
    by (auto simp: sendHint_local_def split: if_splits option.splits intro!: countOk_same)
next
  case (KickPlayer playerId)
  then show ?thesis using assms(1,2)
    by (auto simp: kickPlayer_local_def Let_def split: if_splits option.splits
        intro!: countOk_same)
qed

lemma countOk_setImposterCount_fb:
  assumes "countOk rs"
  shows "countOk (snd (setImposterCount_fb c cd cnt rs))"
proof (cases "configOk c")
  case False
  then show ?thesis using assms by (simp add: setImposterCount_fb_def)
next
  case True
  show ?thesis
  proof (cases "rs cd")
    case None
    then show ?thesis using assms True
      by (auto simp: setImposterCount_fb_def Let_def intro!: countOk_upd)
  next
    case (Some m)
    then show ?thesis using assms True
      by (auto simp: setImposterCount_fb_def Let_def intro!: countOk_upd)
  qed
qed

lemma countOk_exec_fb:
  assumes "countOk rs"
  shows "countOk (exec_fb c a rs)"
proof (cases a)
  case (CreateRoomF nowJoined nowCreated draw redraw)
  then show ?thesis using assms
    by (auto simp: createRoom_fb_def Let_def split: if_splits intro!: countOk_upd[where i = 1])
next
  case (JoinRoomF now cd)
  then show ?thesis using assms
    by (auto simp: joinRoom_fb_def joinAfterGet_fb_def runTransaction_players_def Let_def
        split: if_splits option.splits intro!: countOk_same)
next
  case LeaveRoomF
  show ?thesis
  proof (cases "currentRoomCode c = [] \<or> \<not> configOk c")
    case True
    then show ?thesis using assms LeaveRoomF by (auto simp: leaveRoom_fb_def)
  next
    case False
    have r: "countOk (leaveRemove_fb c rs)"
      using assms
      by (auto simp: leaveRemove_fb_def runTransaction_players_def removeTxn_def
          split: option.splits intro!: countOk_same)
    have "countOk (snd (leaveSettle_fb c (leaveRemove_fb c rs)))"
      using r
      by (auto simp: leaveSettle_fb_def Let_def countOk_del
          split: option.splits list.splits intro!: countOk_same)
    then show ?thesis using False LeaveRoomF by (simp add: leaveRoom_fb_def)
  qed
next
  case (SetImposterCountF cd cnt)
  then show ?thesis using countOk_setImposterCount_fb[OF assms] by simp
next
  case (StartGameF shuffle nowKey nowTs cd)
  then show ?thesis using assms
    by (auto simp: startGame_fb_def Let_def split: option.splits intro!: countOk_same)
next
  case (SendHintF nowKey nowTs hint)
  then show ?thesis using assms
    by (auto simp: sendHint_fb_def Let_def split: if_splits option.splits intro!: countOk_same)
next
  case (KickPlayerF playerId)
  then show ?thesis using assms
    by (auto simp: kickPlayer_fb_def split: if_splits option.splits intro!: countOk_same)
qed

text \<open>
  The local \<^verbatim>\<open>setImposterCount\<close> passes its argument to \<^verbatim>\<open>Math.min\<close> as it is, so a count that
  is not a number is stored as \<^verbatim>\<open>NaN\<close>; the Firebase one replaces it by 1 first.
\<close>

lemma setImposterCount_local_NaN:
  assumes "rs cd = Some m"
  shows "setImposterCount_local cd NaN rs = rs(cd \<mapsto> m\<lparr>impostersCount := NaN\<rparr>)"
  using assms by (simp add: setImposterCount_local_def clamp_count)

lemma setImposterCount_fb_NaN:
  assumes "rs cd = Some m" and "configOk c"
  shows "setImposterCount_fb c cd NaN rs =
    (None, rs(cd \<mapsto> m\<lparr>impostersCount := Num 1\<rparr>))"
  using assms by (auto simp: setImposterCount_fb_def Let_def orOne_def)

text \<open>
  Claim C8, as amended. Every handler of the Firebase component, and every handler of the local
  one other than \<^verbatim>\<open>setImposterCount\<close> called with a count that is not a number, keeps
  every stored \<^verbatim>\<open>impostersCount\<close> an integer of 1 or more. \<^verbatim>\<open>setImposterCount\<close> stores the
  requested count clamped to \<open>[1, memberCount]\<close> (locally \<open>max(1, min(count, n))\<close> for an integer
  \<open>count\<close>; in Firebase with \<^verbatim>\<open>count || 1\<close> and \<^verbatim>\<open>n || 1\<close>), not to \<open>floor(n/2)\<close>.
  \<^verbatim>\<open>startGame\<close> sets \<^verbatim>\<open>started\<close> and leaves the stored field as it is: the bound
  \<open>max(1, floor(n/2))\<close> is applied to the number of imposters that it assigns (claim C2), not
  to the field.
\<close>

theorem impostersCount_stored:
  assumes "countOk rl" and "exec_local cl a rl = Some rl'"
      and "\<forall>cd. a \<noteq> SetImposterCount cd NaN" and "countOk rf"
      and "rl cd = Some ml" and "configOk cf" and "rf cd' = Some mf"
  shows "countOk rl' \<and> countOk (exec_fb cf' a' rf) \<and>
         setImposterCount_local cd (Num cnt) rl =
           rl(cd \<mapsto> ml\<lparr>impostersCount := Num (max 1 (min cnt (int (length (players ml)))))\<rparr>) \<and>
         setImposterCount_fb cf cd' x rf =
           (None, rf(cd' \<mapsto> mf\<lparr>impostersCount :=
              Num (max 1 (min (case x of Num i \<Rightarrow> if i = 0 then 1 else i | NaN \<Rightarrow> 1 | Null \<Rightarrow> 1)
                         (if length (players mf) = 0 then 1 else int (length (players mf)))))\<rparr>)) \<and>
         (case startGame_local cl shuffle now cd rl cd of
            None \<Rightarrow> False
          | Some m' \<Rightarrow> started m' \<and> impostersCount m' = impostersCount ml) \<and>
         (case snd (startGame_fb cf shuffle' nowKey nowTs cd' rf) cd' of
            None \<Rightarrow> False
          | Some m' \<Rightarrow> impostersCount m' = impostersCount mf)"
proof (intro conjI)
  show "countOk rl'" using countOk_exec_local[OF assms(1,2,3)] .
  show "countOk (exec_fb cf' a' rf)" using countOk_exec_fb[OF assms(4)] .
  show "setImposterCount_local cd (Num cnt) rl =
      rl(cd \<mapsto> ml\<lparr>impostersCount := Num (max 1 (min cnt (int (length (players ml)))))\<rparr>)"
    using assms(5) by (simp add: setImposterCount_local_def clamp_count)
  show "setImposterCount_fb cf cd' x rf =
      (None, rf(cd' \<mapsto> mf\<lparr>impostersCount :=
         Num (max 1 (min (case x of Num i \<Rightarrow> if i = 0 then 1 else i | NaN \<Rightarrow> 1 | Null \<Rightarrow> 1)
                    (if length (players mf) = 0 then 1 else int (length (players mf)))))\<rparr>))"
    using assms(6,7) by (simp add: setImposterCount_fb_def Let_def orOne_def)
  show "case startGame_local cl shuffle now cd rl cd of
            None \<Rightarrow> False
          | Some m' \<Rightarrow> started m' \<and> impostersCount m' = impostersCount ml"
    using assms(5) by (simp add: startGame_local_def Let_def)
  show "case snd (startGame_fb cf shuffle' nowKey nowTs cd' rf) cd' of
            None \<Rightarrow> False
          | Some m' \<Rightarrow> impostersCount m' = impostersCount mf"
    using assms(6,7) by (simp add: startGame_fb_def Let_def)
qed

theorem impostersCount_stored_witness:
  "countOk [''ABC234'' \<mapsto> demoRoom_local (Some ''al'') 0 [demoPlayer ''al'' 1, demoPlayer ''bo'' 2]] \<and>
   exec_local (demoClient_local ''al'') (SetImposterCount ''ABC234'' (Num 7))
       [''ABC234'' \<mapsto> demoRoom_local (Some ''al'') 0 [demoPlayer ''al'' 1, demoPlayer ''bo'' 2]]
     = Some [''ABC234'' \<mapsto> (demoRoom_local (Some ''al'') 0 [demoPlayer ''al'' 1, demoPlayer ''bo'' 2])
               \<lparr>impostersCount := Num 2\<rparr>] \<and>
   countOk [''ABC234'' \<mapsto> (demoRoom_local (Some ''al'') 0 [demoPlayer ''al'' 1, demoPlayer ''bo'' 2])
               \<lparr>impostersCount := Num 2\<rparr>] \<and>
   setImposterCount_fb (demoClient_fb ''al'') ''ABC234'' (Num (- 3))
       [''ABC234'' \<mapsto> demoRoom_fb (Some ''al'') 0 [demoPlayer ''al'' 1, demoPlayer ''bo'' 2]]
     = (None, [''ABC234'' \<mapsto> demoRoom_fb (Some ''al'') 0 [demoPlayer ''al'' 1, demoPlayer ''bo'' 2]])"
proof -
  let ?ml = "demoRoom_local (Some ''al'') 0 [demoPlayer ''al'' 1, demoPlayer ''bo'' 2]"
  let ?mf = "demoRoom_fb (Some ''al'') 0 [demoPlayer ''al'' 1, demoPlayer ''bo'' 2]"
  have cl: "countOk [''ABC234'' \<mapsto> ?ml]"
    by (rule countOk_upd[OF countOk_empty, where i = 1]) (simp_all add: demo_defs)
  have cf: "countOk [''ABC234'' \<mapsto> ?mf]"
    by (rule countOk_upd[OF countOk_empty, where i = 1]) (simp_all add: demo_defs)
  have e: "exec_local (demoClient_local ''al'') (SetImposterCount ''ABC234'' (Num 7))
        [''ABC234'' \<mapsto> ?ml]
      = Some [''ABC234'' \<mapsto> ?ml\<lparr>impostersCount := Num 2\<rparr>]"
    by (simp add: setImposterCount_local_def mathMax_def mathMin_def toNumber_def demo_defs)
  have n: "\<forall>cd. SetImposterCount ''ABC234'' (Num 7) \<noteq> SetImposterCount cd NaN" by simp
  have gl: "[''ABC234'' \<mapsto> ?ml] ''ABC234'' = Some ?ml" by simp
  have gf: "[''ABC234'' \<mapsto> ?mf] ''ABC234'' = Some ?mf" by simp
  have ok: "configOk (demoClient_fb ''al'')" by (simp add: demo_defs)
  note t = impostersCount_stored[OF cl e n cf gl ok gf, of "demoClient_fb ''al''"
      "SetImposterCountF ''ABC234'' (Num (- 3))" "- 3"]
  have r: "countOk [''ABC234'' \<mapsto> ?ml\<lparr>impostersCount := Num 2\<rparr>]"
    using t by (rule conjunct1)
  have s: "setImposterCount_fb (demoClient_fb ''al'') ''ABC234'' (Num (- 3)) [''ABC234'' \<mapsto> ?mf]
      = (None, [''ABC234'' \<mapsto> ?mf])"
    by (simp add: setImposterCount_fb_def orOne_def demo_defs)
  show ?thesis using cl e r s by (intro conjI)
qed

text \<open>
  The claim as stated fails: with two members, \<^verbatim>\<open>setImposterCount(code, 2)\<close> stores 2,
  and after \<^verbatim>\<open>startGame\<close> the room is started with one imposter assigned and the stored
  \<^verbatim>\<open>impostersCount\<close> still 2, above \<open>floor(2/2) = 1\<close>; in both components.
\<close>

theorem impostersCount_stored_counterexample:
  "startGame_local (demoClient_local ''al'') rev 5 ''ABC234''
     (setImposterCount_local ''ABC234'' (Num 2)
       [''ABC234'' \<mapsto> demoRoom_local (Some ''al'') 0 [demoPlayer ''al'' 1, demoPlayer ''bo'' 2]])
     = [''ABC234'' \<mapsto> (demoRoom_local (Some ''al'') 0
           [demoPlayer ''al'' 1, (demoPlayer ''bo'' 2)\<lparr>role := Imposter\<rparr>])
           \<lparr>impostersCount := Num 2, started := True,
            chat := [SystemMsg ''Game started. 1 imposters assigned.'' 5]\<rparr>] \<and>
   \<not> (2 \<le> int (length [demoPlayer ''al'' 1, (demoPlayer ''bo'' 2)\<lparr>role := Imposter\<rparr>]) div 2) \<and>
   snd (startGame_fb (demoClient_fb ''al'') rev 5 6 ''ABC234''
     (snd (setImposterCount_fb (demoClient_fb ''al'') ''ABC234'' (Num 2)
       [''ABC234'' \<mapsto> demoRoom_fb (Some ''al'') 0 [demoPlayer ''al'' 1, demoPlayer ''bo'' 2]])))
     = [''ABC234'' \<mapsto> (demoRoom_fb (Some ''al'') 0
           [demoPlayer ''al'' 1, (demoPlayer ''bo'' 2)\<lparr>role := Imposter\<rparr>])
           \<lparr>impostersCount := Num 2, started := True,
            chat := [5 \<mapsto> SystemMsg ''Game started. 1 imposters assigned.'' 6]\<rparr>]"
  by (simp add: demo_defs setImposterCount_local_def setImposterCount_fb_def startGame_local_def
      startGame_fb_def numImposters_def slice0_def assignRoles_def Let_def
      mathMax_def mathMin_def toNumber_def sliceNum_def orOne_def)

subsection \<open>Members and leader of a stored room\<close>



lemma membersOk_get:
  assumes "membersOk rs" and "rs cd = Some m"
  shows "players m \<noteq> []" and "leaderId m \<in> Some ` pid ` set (players m)"
  using assms by (simp_all add: membersOk_def)






lemma leaveRemove_fb_room:
  assumes "rs (currentRoomCode c) = Some m"
  shows "leaveRemove_fb c rs =
    rs(currentRoomCode c \<mapsto> m\<lparr>players := filter (\<lambda>p. pid p \<noteq> meId c) (players m)\<rparr>)"
  using assms by (simp add: leaveRemove_fb_def runTransaction_players_def removeTxn_def)








text \<open>
  The two stores that the Firebase \<^verbatim>\<open>leaveRoom\<close> commits. When the caller is the leader of
  the room, the first one holds the room with a \<^verbatim>\<open>leaderId\<close> that is the id of none of its
  players.
\<close>

lemma leaveRemove_fb_leader:
  assumes "rs (currentRoomCode c) = Some m" and "leaderId m = Some (meId c)"
  shows "\<not> membersOk (leaveRemove_fb c rs)"
proof
  assume ok: "membersOk (leaveRemove_fb c rs)"
  let ?m = "m\<lparr>players := filter (\<lambda>p. pid p \<noteq> meId c) (players m)\<rparr>"
  have "leaveRemove_fb c rs (currentRoomCode c) = Some ?m"
    using leaveRemove_fb_room[of rs c m, OF assms(1)] by simp
  from membersOk_get(2)[OF ok this] show False using assms(2) by auto
qed





subsection \<open>Two clients joining a room\<close>

text \<open>
  The function that the Firebase \<^verbatim>\<open>joinRoom\<close> hands to \<^verbatim>\<open>runTransaction\<close>
  (\<^verbatim>\<open>// use transaction to avoid race conditions when multiple people join\<close>): what it does
  for a new id and for a member, and that for two clients it gives the same players
  whichever is applied first.
\<close>

lemma joinTxn_new:
  assumes "find (\<lambda>p. pid p = meId c) ps = None"
  shows "joinTxn c now ps =
    insort_key pid \<lparr>pid = meId c, pname = trim (name c), role = Crewmate, joinedAt = now\<rparr> ps"
  using assms by (simp add: joinTxn_def)

lemma joinTxn_old:
  assumes "find (\<lambda>p. pid p = meId c) ps \<noteq> None"
  shows "joinTxn c now ps = ps"
  using assms by (auto simp: joinTxn_def)

lemma joinTxn_other:
  assumes "meId a \<noteq> meId b"
  shows "(find (\<lambda>p. pid p = meId b) (joinTxn a na ps) = None) = (find (\<lambda>p. pid p = meId b) ps = None)"
  using assms by (auto simp: joinTxn_def find_None_iff set_insort_key)

lemma joinTxn_commute:
  assumes "meId a \<noteq> meId b"
  shows "joinTxn b nb (joinTxn a na ps) = joinTxn a na (joinTxn b nb ps)"
proof -
  let ?pa = "\<lparr>pid = meId a, pname = trim (name a), role = Crewmate, joinedAt = na\<rparr>"
  let ?pb = "\<lparr>pid = meId b, pname = trim (name b), role = Crewmate, joinedAt = nb\<rparr>"
  note ab = joinTxn_other[OF assms, of na ps]
  note ba = joinTxn_other[OF assms[symmetric], of nb ps]
  show ?thesis
  proof (cases "find (\<lambda>p. pid p = meId a) ps = None")
    case a: True
    then have a': "find (\<lambda>p. pid p = meId a) (joinTxn b nb ps) = None" using ba by simp
    show ?thesis
    proof (cases "find (\<lambda>p. pid p = meId b) ps = None")
      case b: True
      then have b': "find (\<lambda>p. pid p = meId b) (joinTxn a na ps) = None" using ab by simp
      have "joinTxn b nb (joinTxn a na ps) = insort_key pid ?pb (joinTxn a na ps)"
        by (rule joinTxn_new[OF b'])
      also have "\<dots> = insort_key pid ?pb (insort_key pid ?pa ps)"
        by (simp only: joinTxn_new[OF a])
      also have "\<dots> = insort_key pid ?pa (insort_key pid ?pb ps)"
        using assms by (intro insort_key_left_comm) simp
      also have "\<dots> = insort_key pid ?pa (joinTxn b nb ps)"
        by (simp only: joinTxn_new[OF b])
      also have "\<dots> = joinTxn a na (joinTxn b nb ps)"
        by (rule joinTxn_new[OF a', symmetric])
      finally show ?thesis .
    next
      case b: False
      then have b': "find (\<lambda>p. pid p = meId b) (joinTxn a na ps) \<noteq> None" using ab by simp
      have "joinTxn b nb (joinTxn a na ps) = joinTxn a na ps" by (rule joinTxn_old[OF b'])
      also have "\<dots> = joinTxn a na (joinTxn b nb ps)" by (simp only: joinTxn_old[OF b])
      finally show ?thesis .
    qed
  next
    case a: False
    then have a': "find (\<lambda>p. pid p = meId a) (joinTxn b nb ps) \<noteq> None" using ba by simp
    have "joinTxn b nb (joinTxn a na ps) = joinTxn b nb ps" by (simp only: joinTxn_old[OF a])
    also have "\<dots> = joinTxn a na (joinTxn b nb ps)" by (rule joinTxn_old[OF a', symmetric])
    finally show ?thesis .
  qed
qed

lemma joinTxn_pids:
  "pid ` set (joinTxn c now ps) = insert (meId c) (pid ` set ps)"
proof (cases "find (\<lambda>p. pid p = meId c) ps = None")
  case True
  show ?thesis unfolding joinTxn_new[OF True] by (simp add: set_insort_key)
next
  case False
  then obtain p where p: "p \<in> set ps" "meId c = pid p"
    unfolding find_None_iff by auto
  have "meId c \<in> pid ` set ps" using p by (rule rev_image_eqI)
  then show ?thesis unfolding joinTxn_old[OF False] by (simp add: insert_absorb)
qed

lemma joinTxn_length:
  assumes "meId c \<notin> pid ` set ps"
  shows "length (joinTxn c now ps) = Suc (length ps)"
proof -
  have "find (\<lambda>p. pid p = meId c) ps = None"
    unfolding find_None_iff
  proof
    assume "\<exists>x. x \<in> set ps \<and> pid x = meId c"
    then obtain p where p: "p \<in> set ps" "meId c = pid p" by auto
    have "meId c \<in> pid ` set ps" using p by (rule rev_image_eqI)
    then show False using assms by simp
  qed
  then show ?thesis by (simp add: joinTxn_new)
qed

text \<open>What the local \<^verbatim>\<open>joinRoom\<close> stores is what it hands to \<^verbatim>\<open>saveRooms\<close>.\<close>

lemma joinRoom_local_saves:
  "snd (snd (joinRoom_local c now cd rs)) = saveRooms (joinWrite_local c now cd rs) rs"
  by (simp add: joinRoom_local_def joinWrite_local_def saveRooms_def split: option.splits)

lemma joinWrite_local_new:
  assumes "trim (name c) \<noteq> []" and "copy cd = Some m" and "\<not> started m"
      and "meId c \<notin> pid ` set (players m)"
  shows "joinWrite_local c now cd copy =
    Some (copy(cd \<mapsto> m\<lparr>players := players m @
      [\<lparr>pid = meId c, pname = trim (name c), role = Crewmate, joinedAt = now\<rparr>]\<rparr>))"
proof -
  have "find (\<lambda>p. pid p = meId c) (players m) = None"
    unfolding find_None_iff
  proof
    assume "\<exists>x. x \<in> set (players m) \<and> pid x = meId c"
    then obtain p where p: "p \<in> set (players m)" "meId c = pid p" by auto
    have "meId c \<in> pid ` set (players m)" using p by (rule rev_image_eqI)
    then show False using assms(4) by simp
  qed
  then show ?thesis using assms(1,2,3) by (simp add: joinWrite_local_def)
qed

lemma joinRoom_fb_new:
  assumes "trim (name c) \<noteq> []" and "configOk c" and "seen (toUpperCase cd0) = Some m'"
      and "\<not> started m'" and "stored (toUpperCase cd0) = Some m"
  shows "joinAfterGet_fb c now cd0 seen stored =
    (None, c\<lparr>currentRoomCode := toUpperCase cd0\<rparr>,
     stored(toUpperCase cd0 \<mapsto> m\<lparr>players := joinTxn c now (players m)\<rparr>))"
  using assms by (simp add: joinAfterGet_fb_def runTransaction_players_def Let_def)

lemma order_demo:
  "''al'' \<le> ''bo''" "''al'' \<le> ''cy''" "''bo'' \<le> ''cy''"
  "\<not> (''bo'' \<le> ''al'')" "\<not> (''cy'' \<le> ''al'')" "\<not> (''cy'' \<le> ''bo'')"
  by code_simp+

text \<open>
  Claim C9, as amended. In the Firebase component, where \<^verbatim>\<open>joinRoom\<close> adds the player in a
  transaction on the players, two clients with different ids (each with a display name and
  configured, neither a member yet) that join the same not-started room both succeed and
  both end up as members, with two members more than before: the second transaction
  is applied to the players that the first has committed, whether the second client read the
  room before or after that commit, and the players are the same whichever commits first.
  The local component has no transaction: \<^verbatim>\<open>joinRoom\<close> writes the whole \<^verbatim>\<open>rooms\<close> object
  computed from its own copy, so of two clients that join from the same copy only the later
  writer is a member afterwards; both are members when the second joins from a copy that has
  the first.
\<close>

theorem joinRoom_two_clients:
  assumes "meId a \<noteq> meId b" and "trim (name a) \<noteq> []" and "trim (name b) \<noteq> []"
      and "configOk a" and "configOk b"
      and "R (toUpperCase cd0) = Some m" and "\<not> started m"
      and "meId a \<notin> pid ` set (players m)" and "meId b \<notin> pid ` set (players m)"
      and "meId al \<noteq> meId bl" and "trim (name al) \<noteq> []" and "trim (name bl) \<noteq> []"
      and "Rl cd = Some ml" and "\<not> started ml"
      and "meId al \<notin> pid ` set (players ml)" and "meId bl \<notin> pid ` set (players ml)"
  shows "joinRoom_fb a na cd0 R =
           (None, a\<lparr>currentRoomCode := toUpperCase cd0\<rparr>,
            R(toUpperCase cd0 \<mapsto> m\<lparr>players := joinTxn a na (players m)\<rparr>)) \<and>
         joinAfterGet_fb b nb cd0 R
             (R(toUpperCase cd0 \<mapsto> m\<lparr>players := joinTxn a na (players m)\<rparr>)) =
           (None, b\<lparr>currentRoomCode := toUpperCase cd0\<rparr>,
            R(toUpperCase cd0 \<mapsto> m\<lparr>players := joinTxn b nb (joinTxn a na (players m))\<rparr>)) \<and>
         joinRoom_fb b nb cd0
             (R(toUpperCase cd0 \<mapsto> m\<lparr>players := joinTxn a na (players m)\<rparr>)) =
           (None, b\<lparr>currentRoomCode := toUpperCase cd0\<rparr>,
            R(toUpperCase cd0 \<mapsto> m\<lparr>players := joinTxn b nb (joinTxn a na (players m))\<rparr>)) \<and>
         joinTxn b nb (joinTxn a na (players m)) = joinTxn a na (joinTxn b nb (players m)) \<and>
         pid ` set (joinTxn b nb (joinTxn a na (players m))) =
           {meId a, meId b} \<union> pid ` set (players m) \<and>
         length (joinTxn b nb (joinTxn a na (players m))) = length (players m) + 2 \<and>
         joinsFromSameCopy_local al na bl nb cd Rl =
           Rl(cd \<mapsto> ml\<lparr>players := players ml @
             [\<lparr>pid = meId bl, pname = trim (name bl), role = Crewmate, joinedAt = nb\<rparr>]\<rparr>) \<and>
         snd (snd (joinRoom_local bl nb cd (snd (snd (joinRoom_local al na cd Rl))))) =
           Rl(cd \<mapsto> ml\<lparr>players := players ml @
             [\<lparr>pid = meId al, pname = trim (name al), role = Crewmate, joinedAt = na\<rparr>,
              \<lparr>pid = meId bl, pname = trim (name bl), role = Crewmate, joinedAt = nb\<rparr>]\<rparr>)"
proof (intro conjI)
  let ?cd = "toUpperCase cd0"
  let ?Ra = "R(?cd \<mapsto> m\<lparr>players := joinTxn a na (players m)\<rparr>)"
  let ?pa = "\<lparr>pid = meId al, pname = trim (name al), role = Crewmate, joinedAt = na\<rparr>"
  let ?pb = "\<lparr>pid = meId bl, pname = trim (name bl), role = Crewmate, joinedAt = nb\<rparr>"
  have Ra: "?Ra ?cd = Some (m\<lparr>players := joinTxn a na (players m)\<rparr>)" by simp
  have sa: "\<not> started (m\<lparr>players := joinTxn a na (players m)\<rparr>)" using assms(7) by simp
  show "joinRoom_fb a na cd0 R = (None, a\<lparr>currentRoomCode := ?cd\<rparr>, ?Ra)"
    unfolding joinRoom_fb_def
    by (rule joinRoom_fb_new[where seen = R and stored = R, OF assms(2,4,6,7,6)])
  have "joinAfterGet_fb b nb cd0 R ?Ra =
      (None, b\<lparr>currentRoomCode := ?cd\<rparr>,
       ?Ra(?cd \<mapsto> (m\<lparr>players := joinTxn a na (players m)\<rparr>)
          \<lparr>players := joinTxn b nb (players (m\<lparr>players := joinTxn a na (players m)\<rparr>))\<rparr>))"
    by (rule joinRoom_fb_new[where seen = R and stored = ?Ra, OF assms(3,5,6,7) Ra])
  then show "joinAfterGet_fb b nb cd0 R ?Ra =
      (None, b\<lparr>currentRoomCode := ?cd\<rparr>,
       R(?cd \<mapsto> m\<lparr>players := joinTxn b nb (joinTxn a na (players m))\<rparr>))"
    by simp
  have "joinAfterGet_fb b nb cd0 ?Ra ?Ra =
      (None, b\<lparr>currentRoomCode := ?cd\<rparr>,
       ?Ra(?cd \<mapsto> (m\<lparr>players := joinTxn a na (players m)\<rparr>)
          \<lparr>players := joinTxn b nb (players (m\<lparr>players := joinTxn a na (players m)\<rparr>))\<rparr>))"
    by (rule joinRoom_fb_new[where seen = ?Ra and stored = ?Ra, OF assms(3,5) Ra sa Ra])
  then show "joinRoom_fb b nb cd0 ?Ra =
      (None, b\<lparr>currentRoomCode := ?cd\<rparr>,
       R(?cd \<mapsto> m\<lparr>players := joinTxn b nb (joinTxn a na (players m))\<rparr>))"
    unfolding joinRoom_fb_def by simp
  show "joinTxn b nb (joinTxn a na (players m)) = joinTxn a na (joinTxn b nb (players m))"
    by (rule joinTxn_commute[OF assms(1)])
  show "pid ` set (joinTxn b nb (joinTxn a na (players m))) =
      {meId a, meId b} \<union> pid ` set (players m)"
    unfolding joinTxn_pids by auto
  have "meId b \<notin> pid ` set (joinTxn a na (players m))"
    unfolding joinTxn_pids using assms(1,9) by simp
  then have "length (joinTxn b nb (joinTxn a na (players m))) =
      Suc (length (joinTxn a na (players m)))"
    by (rule joinTxn_length)
  then show "length (joinTxn b nb (joinTxn a na (players m))) = length (players m) + 2"
    unfolding joinTxn_length[OF assms(8)] by simp
  have wa: "joinWrite_local al na cd Rl = Some (Rl(cd \<mapsto> ml\<lparr>players := players ml @ [?pa]\<rparr>))"
    by (rule joinWrite_local_new[where copy = Rl, OF assms(11,13,14,15)])
  have wb: "joinWrite_local bl nb cd Rl = Some (Rl(cd \<mapsto> ml\<lparr>players := players ml @ [?pb]\<rparr>))"
    by (rule joinWrite_local_new[where copy = Rl, OF assms(12,13,14,16)])
  show "joinsFromSameCopy_local al na bl nb cd Rl = Rl(cd \<mapsto> ml\<lparr>players := players ml @ [?pb]\<rparr>)"
    unfolding joinsFromSameCopy_local_def wa wb by (simp add: saveRooms_def)
  let ?Rl = "Rl(cd \<mapsto> ml\<lparr>players := players ml @ [?pa]\<rparr>)"
  have first: "snd (snd (joinRoom_local al na cd Rl)) = ?Rl"
    unfolding joinRoom_local_saves wa by (simp add: saveRooms_def)
  have "meId bl \<notin> pid ` set (players (ml\<lparr>players := players ml @ [?pa]\<rparr>))"
    using assms(10,16) by simp
  then have wb': "joinWrite_local bl nb cd ?Rl =
      Some (?Rl(cd \<mapsto> (ml\<lparr>players := players ml @ [?pa]\<rparr>)
        \<lparr>players := players (ml\<lparr>players := players ml @ [?pa]\<rparr>) @ [?pb]\<rparr>))"
    using assms(12,14) by (intro joinWrite_local_new) simp_all
  have "snd (snd (joinRoom_local bl nb cd ?Rl)) =
      Rl(cd \<mapsto> ml\<lparr>players := players ml @ [?pa, ?pb]\<rparr>)"
    unfolding joinRoom_local_saves[of bl nb cd ?Rl] wb' by (simp add: saveRooms_def)
  then show "snd (snd (joinRoom_local bl nb cd (snd (snd (joinRoom_local al na cd Rl))))) =
      Rl(cd \<mapsto> ml\<lparr>players := players ml @ [?pa, ?pb]\<rparr>)"
    unfolding first .
qed

theorem joinRoom_two_clients_witness:
  "joinRoom_fb (demoClient_fb ''cy'') 5 ''abc234''
       [''ABC234'' \<mapsto> demoRoom_fb (Some ''al'') 0 [demoPlayer ''al'' 1]]
     = (None, demoClient_fb ''cy'',
        [''ABC234'' \<mapsto> demoRoom_fb (Some ''al'') 0 [demoPlayer ''al'' 1, demoPlayer ''cy'' 5]]) \<and>
   joinAfterGet_fb (demoClient_fb ''bo'') 6 ''abc234''
       [''ABC234'' \<mapsto> demoRoom_fb (Some ''al'') 0 [demoPlayer ''al'' 1]]
       [''ABC234'' \<mapsto> demoRoom_fb (Some ''al'') 0 [demoPlayer ''al'' 1, demoPlayer ''cy'' 5]]
     = (None, demoClient_fb ''bo'',
        [''ABC234'' \<mapsto> demoRoom_fb (Some ''al'') 0
           [demoPlayer ''al'' 1, demoPlayer ''bo'' 6, demoPlayer ''cy'' 5]]) \<and>
   length (joinTxn (demoClient_fb ''bo'') 6 (joinTxn (demoClient_fb ''cy'') 5
       (players (demoRoom_fb (Some ''al'') 0 [demoPlayer ''al'' 1]))))
     = length (players (demoRoom_fb (Some ''al'') 0 [demoPlayer ''al'' 1])) + 2 \<and>
   snd (snd (joinRoom_local (demoClient_local ''bo'') 6 ''ABC234''
       (snd (snd (joinRoom_local (demoClient_local ''cy'') 5 ''ABC234''
          [''ABC234'' \<mapsto> demoRoom_local (Some ''al'') 0 [demoPlayer ''al'' 1]])))))
     = [''ABC234'' \<mapsto> demoRoom_local (Some ''al'') 0
          [demoPlayer ''al'' 1, demoPlayer ''cy'' 5, demoPlayer ''bo'' 6]]"
proof -
  let ?mf = "demoRoom_fb (Some ''al'') 0 [demoPlayer ''al'' 1]"
  let ?ml = "demoRoom_local (Some ''al'') 0 [demoPlayer ''al'' 1]"
  have ids: "meId (demoClient_fb ''cy'') \<noteq> meId (demoClient_fb ''bo'')"
    by (simp add: demo_defs)
  have na: "trim (name (demoClient_fb ''cy'')) \<noteq> []" by (simp add: demo_defs)
  have nb: "trim (name (demoClient_fb ''bo'')) \<noteq> []" by (simp add: demo_defs)
  have ca: "configOk (demoClient_fb ''cy'')" by (simp add: demo_defs)
  have cb: "configOk (demoClient_fb ''bo'')" by (simp add: demo_defs)
  have rf: "[''ABC234'' \<mapsto> ?mf] (toUpperCase ''abc234'') = Some ?mf" by simp
  have sf: "\<not> started ?mf" by (simp add: demo_defs)
  have ma: "meId (demoClient_fb ''cy'') \<notin> pid ` set (players ?mf)" by (simp add: demo_defs)
  have mb: "meId (demoClient_fb ''bo'') \<notin> pid ` set (players ?mf)" by (simp add: demo_defs)
  have idsl: "meId (demoClient_local ''cy'') \<noteq> meId (demoClient_local ''bo'')"
    by (simp add: demo_defs)
  have nal: "trim (name (demoClient_local ''cy'')) \<noteq> []" by (simp add: demo_defs)
  have nbl: "trim (name (demoClient_local ''bo'')) \<noteq> []" by (simp add: demo_defs)
  have rl: "[''ABC234'' \<mapsto> ?ml] ''ABC234'' = Some ?ml" by simp
  have sl: "\<not> started ?ml" by (simp add: demo_defs)
  have mal: "meId (demoClient_local ''cy'') \<notin> pid ` set (players ?ml)" by (simp add: demo_defs)
  have mbl: "meId (demoClient_local ''bo'') \<notin> pid ` set (players ?ml)" by (simp add: demo_defs)
  note t = joinRoom_two_clients[where a = "demoClient_fb ''cy''" and b = "demoClient_fb ''bo''"
      and ?cd0.0 = "''abc234''" and R = "[''ABC234'' \<mapsto> ?mf]" and m = ?mf
      and al = "demoClient_local ''cy''" and bl = "demoClient_local ''bo''"
      and Rl = "[''ABC234'' \<mapsto> ?ml]" and cd = "''ABC234''" and ml = ?ml
      and na = 5 and nb = 6,
      OF ids na nb ca cb rf sf ma mb idsl nal nbl rl sl mal mbl]
  have len: "length (joinTxn (demoClient_fb ''bo'') 6 (joinTxn (demoClient_fb ''cy'') 5
        (players ?mf))) = length (players ?mf) + 2"
    using t by (elim conjE)
  have j1: "joinRoom_fb (demoClient_fb ''cy'') 5 ''abc234'' [''ABC234'' \<mapsto> ?mf]
      = (None, demoClient_fb ''cy'',
         [''ABC234'' \<mapsto> demoRoom_fb (Some ''al'') 0 [demoPlayer ''al'' 1, demoPlayer ''cy'' 5]])"
    by (simp add: joinRoom_fb_def joinAfterGet_fb_def runTransaction_players_def joinTxn_def
        Let_def demo_defs order_demo)
  have j2: "joinAfterGet_fb (demoClient_fb ''bo'') 6 ''abc234'' [''ABC234'' \<mapsto> ?mf]
        [''ABC234'' \<mapsto> demoRoom_fb (Some ''al'') 0 [demoPlayer ''al'' 1, demoPlayer ''cy'' 5]]
      = (None, demoClient_fb ''bo'',
         [''ABC234'' \<mapsto> demoRoom_fb (Some ''al'') 0
            [demoPlayer ''al'' 1, demoPlayer ''bo'' 6, demoPlayer ''cy'' 5]])"
    by (simp add: joinAfterGet_fb_def runTransaction_players_def joinTxn_def
        Let_def demo_defs order_demo)
  have j3: "snd (snd (joinRoom_local (demoClient_local ''bo'') 6 ''ABC234''
        (snd (snd (joinRoom_local (demoClient_local ''cy'') 5 ''ABC234'' [''ABC234'' \<mapsto> ?ml])))))
      = [''ABC234'' \<mapsto> demoRoom_local (Some ''al'') 0
           [demoPlayer ''al'' 1, demoPlayer ''cy'' 5, demoPlayer ''bo'' 6]]"
    by (simp add: joinRoom_local_def demo_defs)
  show ?thesis using j1 j2 len j3 by (intro conjI)
qed

text \<open>
  The claim as stated fails on the local component. Two tabs hold the same copy of the
  rooms, with the room of \<open>al\<close>; \<open>bo\<close> joins in the first and \<open>cy\<close> in the second, before it
  has taken over what the first has stored: the room stored in the end has \<open>al\<close> and \<open>cy\<close>,
  and \<open>bo\<close> is no member of it.
\<close>

theorem joinRoom_two_clients_counterexample:
  "joinsFromSameCopy_local (demoClient_local ''bo'') 5 (demoClient_local ''cy'') 6 ''ABC234''
       [''ABC234'' \<mapsto> demoRoom_local (Some ''al'') 0 [demoPlayer ''al'' 1]]
     = [''ABC234'' \<mapsto> demoRoom_local (Some ''al'') 0 [demoPlayer ''al'' 1, demoPlayer ''cy'' 6]] \<and>
   map pid [demoPlayer ''al'' 1, demoPlayer ''cy'' 6] = [''al'', ''cy'']"
  by (simp add: joinsFromSameCopy_local_def joinWrite_local_def saveRooms_def demo_defs)

end
